theory Spec2Isabelle
  imports Main "HOL-Library.Word" "HOL-Library.Signed_Division" "HOL-Library.Sublist"
begin

unbundle bit_operations_syntax

section \<open>Reconciler: \<open>SelectStringInList\<close> and \<open>MatchTag\<close>\<close>

text \<open>
  Go strings are byte sequences and \<open>==\<close> compares them byte by byte; they are modelled
  as \<open>string\<close> (lists of 8-bit characters) with HOL equality.

  \<open>SelectStringInList\<close> scans \<open>DestinationTag\<close> from index 0 and returns at the first
  equal element.
\<close>

fun SelectStringInList :: "string \<Rightarrow> string list \<Rightarrow> bool" where
  "SelectStringInList SrcString [] = False"
| "SelectStringInList SrcString (d # DestinationTag) =
     (if d = SrcString then True else SelectStringInList SrcString DestinationTag)"

text \<open>
  The loop of \<open>MatchTag\<close>: the remaining part of \<open>SourceTag\<close>, and \<open>Result\<close> as
  accumulated so far (\<open>append\<close> adds at the end). A nil slice and an empty slice are both
  the empty list.
\<close>

fun MatchTag_loop :: "string list \<Rightarrow> string list \<Rightarrow> string list \<Rightarrow> string list" where
  "MatchTag_loop [] DestinationTag Result = Result"
| "MatchTag_loop (s # SourceTag) DestinationTag Result =
     (if SelectStringInList s DestinationTag
      then MatchTag_loop SourceTag DestinationTag Result
      else MatchTag_loop SourceTag DestinationTag (Result @ [s]))"

definition MatchTag :: "string list \<Rightarrow> string list \<Rightarrow> string list" where
  "MatchTag SourceTag DestinationTag = MatchTag_loop SourceTag DestinationTag []"

section \<open>Standard-library functions the program calls\<close>

text \<open>
  The functions of this section belong to the Go standard library, not to the repository;
  they are written down from their documented behaviour (on Unix, where the path separator
  is \<open>/\<close>), as far as the program depends on it.

  \<open>s[lo:hi]\<close> on a string: a runtime panic (\<open>None\<close>) unless \<open>lo \<le> hi \<le> len(s)\<close>.
\<close>

definition go_slice :: "string \<Rightarrow> nat \<Rightarrow> nat \<Rightarrow> string option" where
  "go_slice s lo hi =
     (if lo \<le> hi \<and> hi \<le> length s then Some (take (hi - lo) (drop lo s)) else None)"

text \<open>\<open>strings.Split(s, sep)\<close> for a one-byte separator; \<open>Split c \<close> is \<open>[]\<close>.\<close>

fun Split :: "char \<Rightarrow> string \<Rightarrow> string list" where
  "Split c [] = [[]]"
| "Split c (x # xs) =
     (if x = c then [] # Split c xs
      else (case Split c xs of w # ws \<Rightarrow> (x # w) # ws | [] \<Rightarrow> [[x]]))"

text \<open>\<open>strings.Join(elems, sep)\<close>.\<close>

fun Join :: "string list \<Rightarrow> string \<Rightarrow> string" where
  "Join [] sep = []"
| "Join [x] sep = x"
| "Join (x # y # ys) sep = x @ sep @ Join (y # ys) sep"

text \<open>
  \<open>filepath.Clean\<close>, by its four documented rules, on the elements between the
  separators: empty elements and \<open>.\<close> are dropped; \<open>..\<close> removes the element before it
  when that is not itself \<open>..\<close>, is dropped at the start of a rooted path, and is kept at
  the start of a relative one. \<open>out\<close> holds the elements kept so far.
\<close>

fun Clean_elems :: "bool \<Rightarrow> string list \<Rightarrow> string list \<Rightarrow> string list" where
  "Clean_elems rooted [] out = out"
| "Clean_elems rooted (e # es) out =
     (if e = [] \<or> e = ''.'' then Clean_elems rooted es out
      else if e = ''..'' then
        (if out \<noteq> [] \<and> last out \<noteq> ''..'' then Clean_elems rooted es (butlast out)
         else if \<not> rooted then Clean_elems rooted es (out @ [''..''])
         else Clean_elems rooted es out)
      else Clean_elems rooted es (out @ [e]))"

text \<open>The cleaned path as text: \<open>/\<close> in front when rooted, \<open>.\<close> when nothing is left.\<close>

definition Clean_render :: "bool \<Rightarrow> string list \<Rightarrow> string" where
  "Clean_render rooted out =
     (if rooted then CHR ''/'' # Join out ''/''
      else if out = [] then ''.'' else Join out ''/'')"

definition filepath_Clean :: "string \<Rightarrow> string" where
  "filepath_Clean path =
     (if path = [] then ''.''
      else let rooted = (hd path = CHR ''/'')
           in Clean_render rooted (Clean_elems rooted (Split (CHR ''/'') path) []))"

text \<open>
  \<open>filepath.Join\<close>: the elements from the first non-empty one on, joined by \<open>/\<close> and
  cleaned; the empty string when every element is empty.
\<close>

definition filepath_Join :: "string list \<Rightarrow> string" where
  "filepath_Join elem =
     (case dropWhile (\<lambda>e. e = []) elem of
        [] \<Rightarrow> []
      | es \<Rightarrow> filepath_Clean (Join es ''/''))"

text \<open>
  \<open>path_elems\<close> are the elements \<open>filepath.Clean\<close> keeps of a path, and \<open>ancestors\<close>
  the directories a lookup of the path walks through below the root, outermost first:
  for \<open>/a/b/c\<close> they are \<open>/a\<close> and \<open>/a/b\<close>.
\<close>

definition path_elems :: "string \<Rightarrow> string list" where
  "path_elems p = Clean_elems (p \<noteq> [] \<and> hd p = CHR ''/'') (Split (CHR ''/'') p) []"

definition ancestors :: "string \<Rightarrow> string list" where
  "ancestors p =
     map (Clean_render (p \<noteq> [] \<and> hd p = CHR ''/'')) (tl (butlast (prefixes (path_elems p))))"

text \<open>
  \<open>hex.EncodeToString\<close>: two characters of \<open>hextable\<close> for every byte, the high half
  first. A SHA-256 digest is 256 bits; \<open>Sum_bytes\<close> are its 32 bytes, as \<open>h.Sum(nil)\<close>
  returns them.
\<close>

definition hextable :: string where
  "hextable = ''0123456789abcdef''"

definition EncodeToString :: "8 word list \<Rightarrow> string" where
  "EncodeToString src =
     concat (map (\<lambda>v. [hextable ! unat (drop_bit 4 v), hextable ! unat (v AND 0x0f)]) src)"

definition Sum_bytes :: "256 word \<Rightarrow> 8 word list" where
  "Sum_bytes w = map (\<lambda>i. ucast (drop_bit (8 * (31 - i)) w)) [0..<32]"

section \<open>Failures, events and the world outside the program\<close>

text \<open>
  The program signals almost every failure by ending the process. A run that ends early
  ends with one of:
  \<^item> \<open>Fatal msg\<close>: \<open>log.Fatal\<close> or \<open>log.Fatalln\<close>, exit status 1;
  \<^item> \<open>Panic msg\<close>: \<open>panic(v)\<close> with an error or a message, exit status 2;
  \<^item> \<open>DivideByZero\<close>, \<open>SliceBounds\<close>, \<open>IndexRange\<close>: the runtime's own panics
    (integer divide by zero, slice bounds out of range, index out of range), exit status 2;
  \<^item> \<open>Exit code\<close>: \<open>os.Exit(code)\<close>.
\<close>

datatype failure =
    Fatal string
  | Panic string
  | DivideByZero
  | SliceBounds
  | IndexRange
  | Exit int

fun exit_status :: "failure + unit \<Rightarrow> int" where
  "exit_status (Inr u) = 0"
| "exit_status (Inl (Exit code)) = code"
| "exit_status (Inl (Fatal msg)) = 1"
| "exit_status (Inl f) = 2"

text \<open>
  \<open>int64\<close> division: Go truncates towards zero, wraps the one overflowing quotient, and
  panics at run time on a zero divisor.
\<close>

definition int64_div :: "64 word \<Rightarrow> 64 word \<Rightarrow> failure + 64 word" where
  "int64_div a b = (if b = 0 then Inl DivideByZero else Inr (word_of_int (sint a sdiv sint b)))"

text \<open>
  What a run does to the outside is recorded in a trace, in order:
  \<^item> \<open>Print text\<close>: one \<open>fmt.Println\<close>;
  \<^item> \<open>Progress q\<close> and \<open>Complete q\<close>: the two \<open>fmt.Printf\<close> lines of
    \<open>Downloader.Read\<close>, where \<open>q\<close> is the \<open>int64\<close> quotient \<open>Current*10000/Total\<close>
    (the text printed is \<open>float64(q)/100\<close> with two decimals, which is not modelled);
  \<^item> \<open>HttpGet url\<close>: a request sent;
  \<^item> \<open>Exec command\<close>: a command handed to \<open>/bin/bash -c\<close>.
\<close>

datatype event =
    Print string
  | Progress "64 word"
  | Complete "64 word"
  | HttpGet string
  | Exec string

text \<open>
  The file system lists every regular file with its content and every directory below the
  root, by path. Paths are taken by their text: the program passes only paths that
  \<open>filepath.Join\<close> has cleaned, built on its working directory.
\<close>

datatype node = File string | Dir

record state =
  fs :: "string \<rightharpoonup> node"
  wd :: string
  trace :: "event list"

text \<open>
  An HTTP response, as \<open>downloadFile\<close> uses it: the pieces of the body that successive
  \<open>Read\<close> calls deliver, the error that ends the body (\<open>None\<close> for \<open>io.EOF\<close>), and the
  declared \<open>ContentLength\<close> (\<open>-1\<close> when the server declares none).
\<close>

record response =
  Body :: "string list"
  BodyErr :: "string option"
  ContentLength :: "64 word"

text \<open>
  Everything the program does not decide itself is a parameter:
  \<^item> \<open>GOOS\<close>: \<open>runtime.GOOS\<close>;
  \<^item> \<open>http_Get\<close>: the answer to \<open>http.Get(url)\<close>, an error or a response;
  \<^item> \<open>MkdirAll_fault\<close>, \<open>Stat_fault\<close>: a failure of \<open>os.MkdirAll\<close> or \<open>os.Stat\<close> on a
    path for a reason the file system of the model does not show (permissions, a read-only
    or full disk); for \<open>os.Stat\<close> an error other than "does not exist";
  \<^item> \<open>bash\<close>: what a shell command does, run in a working directory on a file system:
    the file system after it, its standard output, and its error if it failed;
  \<^item> \<open>sha256_Sum\<close>: the SHA-256 digest of a byte string (\<open>crypto/sha256\<close>);
  \<^item> \<open>ToUpper\<close>, \<open>ToLower\<close>: the case mappings \<open>strings.ToUpper\<close> and
    \<open>strings.ToLower\<close> of the library, which work on Unicode letters;
  \<^item> \<open>Visit\<close>: what the scrape of the mirror's listing finds, namely the link text of
    every \<open>td.link\<close> cell of the table \<open>list\<close> in page order, and the error of
    \<open>c.Visit\<close> if any;
  \<^item> \<open>DockerHub\<close>: the registry's answer, either the error of the request, of reading
    the body or of decoding it, or the \<open>name\<close> of every entry of \<open>results\<close>;
  \<^item> \<open>docker_build\<close>: the outcome of \<open>buildImage(dir, name)\<close>, which archives the
    directory with \<open>tar\<close> and drives the Docker daemon: an error or the build's log lines.
\<close>

record env =
  GOOS :: string
  http_Get :: "string \<Rightarrow> string + response"
  MkdirAll_fault :: "string \<Rightarrow> string option"
  Stat_fault :: "string \<Rightarrow> string option"
  bash :: "string \<Rightarrow> string \<Rightarrow> (string \<rightharpoonup> node) \<Rightarrow> (string \<rightharpoonup> node) \<times> string \<times> string option"
  sha256_Sum :: "string \<Rightarrow> 256 word"
  ToUpper :: "string \<Rightarrow> string"
  ToLower :: "string \<Rightarrow> string"
  Visit :: "string list \<times> string option"
  DockerHub :: "string + string list"
  docker_build :: "string \<Rightarrow> string \<Rightarrow> string + string list"

definition emit :: "event \<Rightarrow> state \<Rightarrow> state" where
  "emit e s = s\<lparr>trace := trace s @ [e]\<rparr>"

subsection \<open>Operating-system calls\<close>

text \<open>
  Looking a path up walks its ancestors from the outermost on: a missing one ends the walk
  with "no such file or directory" (\<open>ENOENT\<close>), a regular file with "not a directory"
  (\<open>ENOTDIR\<close>); past the ancestors the path itself is found or missing.
\<close>

datatype found = ENOENT | ENOTDIR | Found node

fun resolve :: "(string \<rightharpoonup> node) \<Rightarrow> string list \<Rightarrow> string \<Rightarrow> found" where
  "resolve files [] path = (case files path of None \<Rightarrow> ENOENT | Some n \<Rightarrow> Found n)"
| "resolve files (q # qs) path =
     (case files q of
        None \<Rightarrow> ENOENT
      | Some (File c) \<Rightarrow> ENOTDIR
      | Some Dir \<Rightarrow> resolve files qs path)"

definition lookup :: "state \<Rightarrow> string \<Rightarrow> found" where
  "lookup s path = resolve (fs s) (ancestors path) path"

text \<open>
  \<open>os.Stat\<close>, as far as \<open>PathExists\<close> tells its outcomes apart: no error, an error that
  \<open>os.IsNotExist\<close> accepts (\<open>ENOENT\<close> only), and any other error.
\<close>

datatype stat = StatOk | StatNotExist | StatErr string

definition os_Stat :: "env \<Rightarrow> string \<Rightarrow> state \<Rightarrow> stat" where
  "os_Stat E path s =
     (case Stat_fault E path of
        Some err \<Rightarrow> StatErr err
      | None \<Rightarrow>
          (case lookup s path of
             ENOENT \<Rightarrow> StatNotExist
           | ENOTDIR \<Rightarrow> StatErr ''not a directory''
           | Found n \<Rightarrow> StatOk))"

text \<open>
  \<open>os.MkdirAll\<close> goes down the ancestors and the path itself, creates every directory
  that is missing and fails at a regular file; what it has created before it fails stays.
\<close>

fun mkdirs :: "(string \<rightharpoonup> node) \<Rightarrow> string list \<Rightarrow> string option \<times> (string \<rightharpoonup> node)" where
  "mkdirs files [] = (None, files)"
| "mkdirs files (q # qs) =
     (case files q of
        None \<Rightarrow> mkdirs (files(q \<mapsto> Dir)) qs
      | Some (File c) \<Rightarrow> (Some ''not a directory'', files)
      | Some Dir \<Rightarrow> mkdirs files qs)"

definition os_MkdirAll :: "env \<Rightarrow> string \<Rightarrow> state \<Rightarrow> string option \<times> state" where
  "os_MkdirAll E path s =
     (case MkdirAll_fault E path of
        Some err \<Rightarrow> (Some err, s)
      | None \<Rightarrow>
          (case mkdirs (fs s) (ancestors path @ [path]) of
             (err, files) \<Rightarrow> (err, s\<lparr>fs := files\<rparr>)))"

text \<open>
  \<open>os.Create\<close> needs the directory that is to hold the file, and truncates or creates the
  file. \<open>parent_dir\<close> is the path up to its last separator, cleaned.
\<close>

definition parent_dir :: "string \<Rightarrow> string" where
  "parent_dir path = filepath_Clean (rev (dropWhile (\<lambda>c. c \<noteq> CHR ''/'') (rev path)))"

definition os_Create :: "string \<Rightarrow> state \<Rightarrow> string + state" where
  "os_Create path s =
     (case lookup s (parent_dir path) of
        ENOENT \<Rightarrow> Inl ''no such file or directory''
      | ENOTDIR \<Rightarrow> Inl ''not a directory''
      | Found (File c) \<Rightarrow> Inl ''not a directory''
      | Found Dir \<Rightarrow>
          (if fs s path = Some Dir then Inl ''is a directory''
           else Inr (s\<lparr>fs := (fs s)(path \<mapsto> File [])\<rparr>)))"

definition file_Write :: "string \<Rightarrow> string \<Rightarrow> state \<Rightarrow> state" where
  "file_Write path bytes s =
     s\<lparr>fs := (fs s)(path \<mapsto> File ((case fs s path of Some (File c) \<Rightarrow> c | _ \<Rightarrow> []) @ bytes))\<rparr>"

text \<open>\<open>os.Chdir\<close>; the program ignores its error, which leaves the directory as it was.\<close>

definition os_Chdir :: "string \<Rightarrow> state \<Rightarrow> state" where
  "os_Chdir dir s = (if lookup s dir = Found Dir then s\<lparr>wd := dir\<rparr> else s)"

section \<open>Downloading: \<open>Downloader.Read\<close> and \<open>downloadFile\<close>\<close>

text \<open>
  The \<open>Downloader\<close> wraps the response body; its \<open>Reader\<close> is the list of pieces still to
  be delivered, held by \<open>io_Copy\<close> below.
\<close>

record Downloader =
  Total :: "64 word"
  Current :: "64 word"

text \<open>
  \<open>Read\<close>, given the number \<open>n\<close> of bytes the wrapped reader has just returned: add \<open>n\<close>
  to \<open>Current\<close>, print the progress, and print the completion line when \<open>Current\<close> has
  reached \<open>Total\<close>. Both lines divide by \<open>Total\<close>.
\<close>

definition Downloader_Read :: "Downloader \<Rightarrow> nat \<Rightarrow> state \<Rightarrow> (failure + Downloader) \<times> state" where
  "Downloader_Read d n s =
     (let d1 = d\<lparr>Current := Current d + of_nat n\<rparr> in
      case int64_div (Current d1 * 10000) (Total d1) of
        Inl f \<Rightarrow> (Inl f, s)
      | Inr q \<Rightarrow>
          (let s1 = emit (Progress q) s in
           if Current d1 = Total d1 then
             (case int64_div (Current d1 * 10000) (Total d1) of
                Inl f \<Rightarrow> (Inl f, s1)
              | Inr q' \<Rightarrow> (Inr d1, emit (Complete q') s1))
           else (Inr d1, s1)))"

text \<open>
  \<open>io.Copy(file, downloader)\<close>: one \<open>Read\<close> for every piece of the body, each piece
  written to the file, and a last \<open>Read\<close> that returns no bytes and ends the body. The
  value is the error \<open>io.Copy\<close> returns (\<open>None\<close> at \<open>io.EOF\<close>).
\<close>

fun io_Copy :: "string \<Rightarrow> Downloader \<Rightarrow> string list \<Rightarrow> string option \<Rightarrow> state
    \<Rightarrow> (failure + string option) \<times> state" where
  "io_Copy filePath d [] ending s =
     (case Downloader_Read d 0 s of
        (Inl f, s1) \<Rightarrow> (Inl f, s1)
      | (Inr d1, s1) \<Rightarrow> (Inr ending, s1))"
| "io_Copy filePath d (piece # pieces) ending s =
     (case Downloader_Read d (length piece) s of
        (Inl f, s1) \<Rightarrow> (Inl f, s1)
      | (Inr d1, s1) \<Rightarrow> io_Copy filePath d1 pieces ending (file_Write filePath piece s1))"

text \<open>
  \<open>downloadFile\<close> is called directly, not as a goroutine, so \<open>wg.Add(1)\<close> before it and
  its deferred \<open>wg.Done()\<close> cancel out before \<open>wg.Wait()\<close> is reached; the counter is not
  part of the state.
\<close>

definition downloadFile :: "env \<Rightarrow> string \<Rightarrow> string \<Rightarrow> state \<Rightarrow> (failure + unit) \<times> state" where
  "downloadFile E url filePath s =
     (let s1 = emit (HttpGet url) s in
      case http_Get E url of
        Inl err \<Rightarrow> (Inl (Fatal err), s1)
      | Inr resp \<Rightarrow>
          (case os_Create filePath s1 of
             Inl err \<Rightarrow> (Inl (Panic err), s1)
           | Inr s2 \<Rightarrow>
               (case io_Copy filePath \<lparr>Total = ContentLength resp, Current = 0\<rparr>
                       (Body resp) (BodyErr resp) s2 of
                  (Inl f, s3) \<Rightarrow> (Inl f, s3)
                | (Inr (Some err), s3) \<Rightarrow> (Inl (Fatal err), s3)
                | (Inr None, s3) \<Rightarrow> (Inr (), s3))))"

section \<open>Helpers of the materializer\<close>

definition PathExists :: "env \<Rightarrow> string \<Rightarrow> state \<Rightarrow> bool \<times> string option" where
  "PathExists E path s =
     (case os_Stat E path s of
        StatOk \<Rightarrow> (True, None)
      | StatNotExist \<Rightarrow> (False, None)
      | StatErr err \<Rightarrow> (False, Some err))"

text \<open>
  \<open>sha256encode\<close>: the lower-case hex text of the digest of the whole file;
  \<open>log.Fatal\<close> when the file cannot be opened or read.
\<close>

definition sha256encode :: "env \<Rightarrow> string \<Rightarrow> state \<Rightarrow> failure + string" where
  "sha256encode E FilePath s =
     (case lookup s FilePath of
        ENOENT \<Rightarrow> Inl (Fatal ''no such file or directory'')
      | ENOTDIR \<Rightarrow> Inl (Fatal ''not a directory'')
      | Found Dir \<Rightarrow> Inl (Fatal ''is a directory'')
      | Found (File content) \<Rightarrow> Inr (EncodeToString (Sum_bytes (sha256_Sum E content))))"

text \<open>\<open>ReadFile\<close>: \<open>string(content)[0:64]\<close>; a panic when the file cannot be read.\<close>

definition ReadFile :: "string \<Rightarrow> state \<Rightarrow> failure + string" where
  "ReadFile FilePath s =
     (case lookup s FilePath of
        ENOENT \<Rightarrow> Inl (Panic ''no such file or directory'')
      | ENOTDIR \<Rightarrow> Inl (Panic ''not a directory'')
      | Found Dir \<Rightarrow> Inl (Panic ''is a directory'')
      | Found (File content) \<Rightarrow>
          (case go_slice content 0 64 of
             None \<Rightarrow> Inl SliceBounds
           | Some digest \<Rightarrow> Inr digest))"

text \<open>
  \<open>ExecCommand\<close> prints the command, runs it through the shell in the current
  directory, prints the error if it failed, and returns its standard output whatever
  happened.
\<close>

definition ExecCommand :: "env \<Rightarrow> string \<Rightarrow> state \<Rightarrow> string \<times> state" where
  "ExecCommand E Command s =
     (let s1 = emit (Exec Command) (emit (Print Command) s) in
      case bash E Command (wd s1) (fs s1) of
        (fs', out, err) \<Rightarrow>
          (out, case err of
                  None \<Rightarrow> s1\<lparr>fs := fs'\<rparr>
                | Some e \<Rightarrow> emit (Print e) (s1\<lparr>fs := fs'\<rparr>)))"

text \<open>\<open>fmt.Println\<close> of a slice of strings: the elements between brackets, spaces between.\<close>

definition Println_slice :: "string list \<Rightarrow> event" where
  "Println_slice xs = Print (''['' @ Join xs '' '' @ '']'')"

section \<open>The materializer: \<open>ImagePrepare\<close>\<close>

text \<open>The names and paths one pass of the inner loop computes (lines 252 to 263).\<close>

definition BasicURL :: "env \<Rightarrow> string \<Rightarrow> string" where
  "BasicURL E version =
     ''https://repo.openeuler.org/openEuler-'' @ ToUpper E version @ ''/docker_img/''"

definition ImagePrepare_dir :: "string \<Rightarrow> string \<Rightarrow> string \<Rightarrow> string" where
  "ImagePrepare_dir pwd version arch = filepath_Join [pwd, ''openEuler'', version, arch]"

definition imageFile :: "string \<Rightarrow> string" where
  "imageFile arch = ''openEuler-docker.'' @ arch @ ''.tar.xz''"

definition rootfsFile :: "string \<Rightarrow> string" where
  "rootfsFile arch = ''openEuler-docker-rootfs.'' @ arch @ ''.tar''"

definition sha256sumFile :: "string \<Rightarrow> string" where
  "sha256sumFile arch = ''openEuler-docker.'' @ arch @ ''.tar.xz.sha256sum''"

definition imagePath :: "string \<Rightarrow> string \<Rightarrow> string \<Rightarrow> string" where
  "imagePath pwd version arch = filepath_Join [ImagePrepare_dir pwd version arch, imageFile arch]"

definition sha256sumPath :: "string \<Rightarrow> string \<Rightarrow> string \<Rightarrow> string" where
  "sha256sumPath pwd version arch =
     filepath_Join [ImagePrepare_dir pwd version arch, sha256sumFile arch]"

definition rootfsPath :: "string \<Rightarrow> string \<Rightarrow> string \<Rightarrow> string" where
  "rootfsPath pwd version arch = filepath_Join [ImagePrepare_dir pwd version arch, rootfsFile arch]"

text \<open>
  Lines 264 to 283: the compressed image and the checksum file are downloaded when
  \<open>PathExists\<close> does not find them; an error of \<open>PathExists\<close> is a panic.
\<close>

definition ImagePrepare_fetch :: "env \<Rightarrow> string \<Rightarrow> string \<Rightarrow> string \<Rightarrow> state \<Rightarrow> (failure + unit) \<times> state" where
  "ImagePrepare_fetch E pwd version arch s =
     (case PathExists E (imagePath pwd version arch) s of
        (isExist, Some err) \<Rightarrow> (Inl (Panic err), s)
      | (isExist, None) \<Rightarrow>
          (case (if \<not> isExist
                 then downloadFile E (BasicURL E version @ arch @ ''/'' @ imageFile arch)
                        (imagePath pwd version arch)
                        (emit (Print (BasicURL E version @ arch @ ''/'' @ imageFile arch)) s)
                 else (Inr (), s)) of
             (Inl f, s1) \<Rightarrow> (Inl f, s1)
           | (Inr u, s1) \<Rightarrow>
               (case PathExists E (sha256sumPath pwd version arch) s1 of
                  (isExist, Some err) \<Rightarrow> (Inl (Panic err), s1)
                | (isExist, None) \<Rightarrow>
                    (if \<not> isExist
                     then downloadFile E (BasicURL E version @ arch @ ''/'' @ sha256sumFile arch)
                            (sha256sumPath pwd version arch) s1
                     else (Inr (), s1)))))"

text \<open>Lines 284 to 288: the digest of the image against the start of the checksum file.\<close>

definition ImagePrepare_verify :: "env \<Rightarrow> string \<Rightarrow> string \<Rightarrow> string \<Rightarrow> state \<Rightarrow> failure + unit" where
  "ImagePrepare_verify E pwd version arch s =
     (case sha256encode E (imagePath pwd version arch) s of
        Inl f \<Rightarrow> Inl f
      | Inr SrcSha256 \<Rightarrow>
          (case ReadFile (sha256sumPath pwd version arch) s of
             Inl f \<Rightarrow> Inl f
           | Inr DestSha256 \<Rightarrow>
               (if SrcSha256 \<noteq> DestSha256 then Inl (Panic ''Sha256 Sum Error.'') else Inr ())))"

text \<open>
  Lines 298 to 316, the branch taken when the rootfs file is not there: five shell
  commands in the target directory, each result printed.
\<close>

definition tar_Command :: "string \<Rightarrow> string" where
  "tar_Command arch =
     ''tar -xf openEuler-docker.'' @ arch @ ''.tar.xz --wildcards '' @ [CHR 0x27] @ ''*.tar''
       @ [CHR 0x27] @ '' --exclude '' @ [CHR 0x27] @ ''layer.tar'' @ [CHR 0x27]"

definition ls_Command :: string where
  "ls_Command = ''ls | xargs -n1 | grep -v openEuler |grep *.tar''"

definition ImagePrepare_extract :: "env \<Rightarrow> string \<Rightarrow> string \<Rightarrow> string \<Rightarrow> state \<Rightarrow> (failure + unit) \<times> state" where
  "ImagePrepare_extract E pwd version arch s =
     (let s1 = os_Chdir (ImagePrepare_dir pwd version arch) s in
      case ExecCommand E (tar_Command arch) s1 of (result, s2) \<Rightarrow>
      case ExecCommand E ls_Command (emit (Print result) s2) of (result, s3) \<Rightarrow>
        (case Split (CHR 0x0A) result of
           [] \<Rightarrow> (Inl IndexRange, emit (Println_slice []) (emit (Print result) s3))
         | tarFileName # rest \<Rightarrow>
             (case ExecCommand E (''mv '' @ tarFileName @ '' openEuler-docker-rootfs.'' @ arch @ ''.tar'')
                     (emit (Println_slice (tarFileName # rest)) (emit (Print result) s3)) of
                (result, s4) \<Rightarrow>
             case ExecCommand E (''xz -z openEuler-docker-rootfs.'' @ arch @ ''.tar'')
                     (emit (Print result) s4) of
                (result, s5) \<Rightarrow>
             case ExecCommand E (''cp '' @ pwd @ ''/Dockerfile '' @ ImagePrepare_dir pwd version arch
                                  @ ''/Dockerfile'')
                     (emit (Print result) s5) of
                (result, s6) \<Rightarrow> (Inr (), emit (Print result) s6))))"

text \<open>
  Lines 289 to 297: the existence of the rootfs file is looked up, then the host system is
  tested, then the lookup decides whether the extraction runs.
\<close>

definition ImagePrepare_rootfs :: "env \<Rightarrow> string \<Rightarrow> string \<Rightarrow> string \<Rightarrow> state \<Rightarrow> (failure + unit) \<times> state" where
  "ImagePrepare_rootfs E pwd version arch s =
     (case PathExists E (rootfsPath pwd version arch) s of
        (isExist, Some err) \<Rightarrow> (Inl (Panic err), s)
      | (isExist, None) \<Rightarrow>
          (if GOOS E \<noteq> ''linux'' then (Inl (Panic ''Only Linux Run.''), s)
           else if \<not> isExist then ImagePrepare_extract E pwd version arch s
           else (Inr (), s)))"

text \<open>
  Lines 253 to 257: the target directory is created; the error of \<open>os.MkdirAll\<close> is
  printed and nothing else is done about it.
\<close>

definition ImagePrepare_mkdir :: "env \<Rightarrow> string \<Rightarrow> string \<Rightarrow> string \<Rightarrow> state \<Rightarrow> state" where
  "ImagePrepare_mkdir E pwd version arch s =
     (case os_MkdirAll E (ImagePrepare_dir pwd version arch) s of
        (Some err, s') \<Rightarrow> emit (Print err) s'
      | (None, s') \<Rightarrow> s')"

text \<open>One pass of the inner loop, for one version and one architecture.\<close>

definition ImagePrepare_body :: "env \<Rightarrow> string \<Rightarrow> string \<Rightarrow> string \<Rightarrow> state \<Rightarrow> (failure + unit) \<times> state" where
  "ImagePrepare_body E pwd version arch s =
     (let s1 = ImagePrepare_mkdir E pwd version arch s in
      case ImagePrepare_fetch E pwd version arch s1 of
        (Inl f, s2) \<Rightarrow> (Inl f, s2)
      | (Inr u, s2) \<Rightarrow>
          (case ImagePrepare_verify E pwd version arch s2 of
             Inl f \<Rightarrow> (Inl f, s2)
           | Inr u \<Rightarrow> ImagePrepare_rootfs E pwd version arch s2))"

fun ImagePrepare_archs :: "env \<Rightarrow> string \<Rightarrow> string \<Rightarrow> string list \<Rightarrow> state \<Rightarrow> (failure + unit) \<times> state" where
  "ImagePrepare_archs E pwd version [] s = (Inr (), s)"
| "ImagePrepare_archs E pwd version (arch # archs) s =
     (case ImagePrepare_body E pwd version arch s of
        (Inl f, s1) \<Rightarrow> (Inl f, s1)
      | (Inr u, s1) \<Rightarrow> ImagePrepare_archs E pwd version archs s1)"

fun ImagePrepare_versions :: "env \<Rightarrow> string \<Rightarrow> string list \<Rightarrow> string list \<Rightarrow> state \<Rightarrow> (failure + unit) \<times> state" where
  "ImagePrepare_versions E pwd [] archs s = (Inr (), s)"
| "ImagePrepare_versions E pwd (version # MatchResult) archs s =
     (case ImagePrepare_archs E pwd version archs s of
        (Inl f, s1) \<Rightarrow> (Inl f, s1)
      | (Inr u, s1) \<Rightarrow> ImagePrepare_versions E pwd MatchResult archs s1)"

text \<open>\<open>pwd\<close> is read once, before the loops; \<open>os.Chdir\<close> later does not change it.\<close>

definition ImagePrepare :: "env \<Rightarrow> string list \<Rightarrow> string list \<Rightarrow> state \<Rightarrow> (failure + unit) \<times> state" where
  "ImagePrepare E MatchResult archs s = ImagePrepare_versions E (wd s) MatchResult archs s"

section \<open>The version sources, \<open>run\<close> and \<open>main\<close>\<close>

text \<open>
  \<open>MatchDockerImageDir\<close> counts the matches of the pattern \<open>^openEuler-[\d].*\<close>. The
  pattern is anchored at the start of the text, so there is one match when the text
  starts with \<open>openEuler-\<close> and a digit, and none otherwise.
\<close>

definition MatchDockerImageDir :: "string \<Rightarrow> bool" where
  "MatchDockerImageDir Text =
     (case go_slice Text 0 11 of
        None \<Rightarrow> False
      | Some p \<Rightarrow> take 10 p = ''openEuler-'' \<and> last p \<in> set ''0123456789'')"

text \<open>
  The callback of \<open>GetOpenEulerTag\<close> on the link texts in page order: a matching text
  gives the version \<open>strings.ToLower(Path[10 : len(Path)-1])\<close>.
\<close>

fun GetOpenEulerTag_items :: "env \<Rightarrow> string list \<Rightarrow> string list \<Rightarrow> failure + string list" where
  "GetOpenEulerTag_items E [] Tag = Inr Tag"
| "GetOpenEulerTag_items E (Path # items) Tag =
     (if MatchDockerImageDir Path then
        (case go_slice Path 10 (length Path - 1) of
           None \<Rightarrow> Inl SliceBounds
         | Some v \<Rightarrow> GetOpenEulerTag_items E items (Tag @ [ToLower E v]))
      else GetOpenEulerTag_items E items Tag)"

definition GetOpenEulerTag :: "env \<Rightarrow> state \<Rightarrow> (failure + string list) \<times> state" where
  "GetOpenEulerTag E s =
     (let s1 = emit (HttpGet ''https://repo.openeuler.org/'') s in
      case GetOpenEulerTag_items E (fst (Visit E)) [] of
        Inl f \<Rightarrow> (Inl f, s1)
      | Inr Tag \<Rightarrow>
          (Inr Tag, case snd (Visit E) of None \<Rightarrow> s1 | Some err \<Rightarrow> emit (Print err) s1))"

fun GetDockerHubTag_names :: "string list \<Rightarrow> string list \<Rightarrow> string list" where
  "GetDockerHubTag_names [] Tag = Tag"
| "GetDockerHubTag_names (Name # Results) Tag =
     (if Name \<noteq> ''latest'' then GetDockerHubTag_names Results (Tag @ [Name])
      else GetDockerHubTag_names Results Tag)"

definition GetDockerHubTag :: "env \<Rightarrow> state \<Rightarrow> (failure + string list) \<times> state" where
  "GetDockerHubTag E s =
     (let s1 = emit (HttpGet ''https://hub.docker.com/v2/repositories/openeuler2k8s/openeuler/tags'') s in
      case DockerHub E of
        Inl err \<Rightarrow> (Inl (Panic err), s1)
      | Inr Results \<Rightarrow> (Inr (GetDockerHubTag_names Results []), s1))"

definition run :: "env \<Rightarrow> state \<Rightarrow> (failure + unit) \<times> state" where
  "run E s =
     (case GetOpenEulerTag E s of
        (Inl f, s1) \<Rightarrow> (Inl f, s1)
      | (Inr OpenEulerTag, s1) \<Rightarrow>
          (case GetDockerHubTag E s1 of
             (Inl f, s2) \<Rightarrow> (Inl f, s2)
           | (Inr DockerHubTag, s2) \<Rightarrow>
               ImagePrepare E (MatchTag OpenEulerTag DockerHubTag) [''x86_64'', ''aarch64''] s2))"

text \<open>
  \<open>main\<close>, on \<open>os.Args\<close> (the program's name first): \<open>run\<close>, then the test of the number
  of arguments, then the build.
\<close>

definition usage :: string where
  "usage = ''bad num of arguments:'' @ [CHR 0x0A, CHR 0x09] @ ''1. = dir with image content''
             @ [CHR 0x0A, CHR 0x09] @ ''2. = image name''"

definition main :: "env \<Rightarrow> string list \<Rightarrow> state \<Rightarrow> (failure + unit) \<times> state" where
  "main E Args s =
     (case run E s of
        (Inl f, s1) \<Rightarrow> (Inl f, s1)
      | (Inr u, s1) \<Rightarrow>
          (if length Args \<noteq> 3 then (Inl (Exit 0), emit (Print usage) s1)
           else (case docker_build E (Args ! 1) (Args ! 2) of
                   Inl err \<Rightarrow> (Inl (Fatal err), s1)
                 | Inr msg \<Rightarrow> (Inr (), emit (Println_slice msg) s1))))"

section \<open>Simple names\<close>

text \<open>
  A simple name is one path element: not empty, without a separator, and neither \<open>.\<close>
  nor \<open>..\<close>.
\<close>

definition simple_name :: "string \<Rightarrow> bool" where
  "simple_name n = (n \<noteq> [] \<and> CHR ''/'' \<notin> set n \<and> n \<noteq> ''.'' \<and> n \<noteq> ''..'')"

section \<open>Example inputs\<close>

text \<open>
  A small world for the concrete runs below: the working directory \<open>/work\<close> with the
  \<open>Dockerfile\<close> template, the version \<open>22.03-lts\<close>, a mirror that serves a five-byte
  image and a checksum file for it, and a shell whose commands do nothing and print
  nothing. The theorems hold for every digest function and every case mapping; the
  examples use a stand-in for SHA-256 (the length of the content as a 256-bit number) with
  a checksum file that holds its hex text, as a real checksum file holds the real digest,
  and the case mappings on the ASCII letters, which is what the library's mappings do on
  the ASCII text of the examples.
\<close>

definition example_Sum :: "string \<Rightarrow> 256 word" where
  "example_Sum content = of_nat (length content)"

definition example_digest :: string where
  "example_digest = ''0000000000000000000000000000000000000000000000000000000000000005''"

definition ascii_ToUpper :: "string \<Rightarrow> string" where
  "ascii_ToUpper s =
     map (\<lambda>c. case map_of (zip ''abcdefghijklmnopqrstuvwxyz'' ''ABCDEFGHIJKLMNOPQRSTUVWXYZ'') c of
                 Some u \<Rightarrow> u | None \<Rightarrow> c) s"

definition ascii_ToLower :: "string \<Rightarrow> string" where
  "ascii_ToLower s =
     map (\<lambda>c. case map_of (zip ''ABCDEFGHIJKLMNOPQRSTUVWXYZ'' ''abcdefghijklmnopqrstuvwxyz'') c of
                 Some l \<Rightarrow> l | None \<Rightarrow> c) s"

text \<open>The mirror: a URL that ends in \<open>.sha256sum\<close> gets the checksum text, any other the image.\<close>

definition mirror :: "string \<Rightarrow> string \<Rightarrow> string + response" where
  "mirror sums url =
     (if take 10 (rev url) = rev ''.sha256sum''
      then Inr \<lparr>Body = [sums], BodyErr = None, ContentLength = of_nat (length sums)\<rparr>
      else Inr \<lparr>Body = [''IMA'', ''GE''], BodyErr = None, ContentLength = 5\<rparr>)"

definition example_env :: env where
  "example_env =
     \<lparr>GOOS = ''linux'',
      http_Get = mirror (example_digest @ ''  openEuler-docker.tar.xz'' @ [CHR 0x0A]),
      MkdirAll_fault = (\<lambda>path. None),
      Stat_fault = (\<lambda>path. None),
      bash = (\<lambda>command dir files. (files, [], None)),
      sha256_Sum = example_Sum,
      ToUpper = ascii_ToUpper,
      ToLower = ascii_ToLower,
      Visit = ([''openEuler-20.03-LTS/'', ''openEuler-22.03-LTS/'', ''openEuler-preview/''], None),
      DockerHub = Inr [''latest'', ''20.03-lts''],
      docker_build = (\<lambda>dir name. Inr [])\<rparr>"

text \<open>
  The working directory before anything is prepared; with the directory of one pair as a
  completed run leaves it (\<open>populated\<close>: the rootfs archive compressed); and the same with
  the uncompressed rootfs archive still there (\<open>unpacked\<close>).
\<close>

definition fresh :: "string \<rightharpoonup> node" where
  "fresh = map_of [(''/work'', Dir), (''/work/Dockerfile'', File ''FROM scratch'')]"

definition populated :: "string \<rightharpoonup> node" where
  "populated = map_of
     [(''/work'', Dir),
      (''/work/Dockerfile'', File ''FROM scratch''),
      (''/work/openEuler'', Dir),
      (''/work/openEuler/22.03-lts'', Dir),
      (''/work/openEuler/22.03-lts/x86_64'', Dir),
      (''/work/openEuler/22.03-lts/x86_64/openEuler-docker.x86_64.tar.xz'', File ''IMAGE''),
      (''/work/openEuler/22.03-lts/x86_64/openEuler-docker.x86_64.tar.xz.sha256sum'',
         File (example_digest @ ''  openEuler-docker.tar.xz'' @ [CHR 0x0A])),
      (''/work/openEuler/22.03-lts/x86_64/openEuler-docker-rootfs.x86_64.tar.xz'', File ''ROOTFS''),
      (''/work/openEuler/22.03-lts/x86_64/Dockerfile'', File ''FROM scratch'')]"

definition unpacked :: "string \<rightharpoonup> node" where
  "unpacked =
     populated(''/work/openEuler/22.03-lts/x86_64/openEuler-docker-rootfs.x86_64.tar'' \<mapsto> File ''ROOTFS'')"

text \<open>
  Variants of the world: a mirror whose checksum text differs from the digest in its first
  character; a mirror whose checksum file is cut short; a working directory in which
  nothing can be created; a registry out of reach.
\<close>

definition tampering_env :: env where
  "tampering_env =
     example_env\<lparr>http_Get := mirror (''1'' @ tl example_digest @ ''  openEuler-docker.tar.xz'' @ [CHR 0x0A])\<rparr>"

definition truncating_env :: env where
  "truncating_env = example_env\<lparr>http_Get := mirror (take 40 example_digest)\<rparr>"

definition readonly_env :: env where
  "readonly_env = example_env\<lparr>MkdirAll_fault := (\<lambda>path. Some ''permission denied'')\<rparr>"

definition offline_env :: env where
  "offline_env = example_env\<lparr>DockerHub := Inl ''connection refused''\<rparr>"

text \<open>
  And: a host that is not Linux; a version directory in which the directory of the second
  architecture cannot be created; a registry that already has every version.
\<close>

definition darwin_env :: env where
  "darwin_env = example_env\<lparr>GOOS := ''darwin''\<rparr>"

definition sealed_env :: env where
  "sealed_env =
     example_env\<lparr>MkdirAll_fault :=
       (\<lambda>path. if path = ''/work/openEuler/22.03-lts/aarch64'' then Some ''permission denied''
               else None)\<rparr>"

definition settled_env :: env where
  "settled_env = example_env\<lparr>DockerHub := Inr [''latest'', ''20.03-lts'', ''22.03-lts'']\<rparr>"

text \<open>A working directory in which \<open>openEuler\<close> is a regular file.\<close>

definition blocked :: "string \<rightharpoonup> node" where
  "blocked = fresh(''/work/openEuler'' \<mapsto> File [])"

section \<open>Properties of the reconciler\<close>

lemma SelectStringInList_iff: "SelectStringInList s ds \<longleftrightarrow> s \<in> set ds"
  by (induction ds) auto

lemma MatchTag_loop_filter:
  "MatchTag_loop src dst acc = acc @ filter (\<lambda>x. x \<notin> set dst) src"
  by (induction src arbitrary: acc) (simp_all add: SelectStringInList_iff)

text \<open>
  C1. \<open>MatchTag\<close> returns exactly the elements of the source list that occur nowhere in
  the destination list, in the source's order and with its duplicates kept, membership
  being string equality; an empty source gives the empty list and an empty destination
  gives the source back.
\<close>

theorem MatchTag_difference:
  "MatchTag A B = filter (\<lambda>x. x \<notin> set B) A \<and> MatchTag [] B = [] \<and> MatchTag A [] = A"
  by (simp add: MatchTag_def MatchTag_loop_filter)

theorem MatchTag_difference_witness:
  "MatchTag [''openeuler-22.03'', ''openeuler-20.03'', ''openeuler-22.03''] [''openeuler-20.03'']
     = [''openeuler-22.03'', ''openeuler-22.03'']"
  using MatchTag_difference [of "[''openeuler-22.03'', ''openeuler-20.03'', ''openeuler-22.03'']"
      "[''openeuler-20.03'']"]
  by simp

section \<open>Properties of the materializer\<close>

subsection \<open>The digest text\<close>

lemma length_EncodeToString: "length (EncodeToString bs) = 2 * length bs"
  by (induction bs) (simp_all add: EncodeToString_def)

lemma length_digest_text: "length (EncodeToString (Sum_bytes w)) = 64"
  by (simp add: length_EncodeToString Sum_bytes_def)

lemma ReadFile_short:
  "lookup s p = Found (File sums) \<Longrightarrow> length sums < 64 \<Longrightarrow> ReadFile p s = Inl SliceBounds"
  by (simp add: ReadFile_def go_slice_def)

lemma ReadFile_long:
  "lookup s p = Found (File sums) \<Longrightarrow> 64 \<le> length sums \<Longrightarrow> ReadFile p s = Inr (take 64 sums)"
  by (simp add: ReadFile_def go_slice_def)

lemma verify_files:
  assumes "lookup s (imagePath pwd version arch) = Found (File img)"
    and "lookup s (sha256sumPath pwd version arch) = Found (File sums)"
  shows "ImagePrepare_verify E pwd version arch s = Inr ()
         \<longleftrightarrow> EncodeToString (Sum_bytes (sha256_Sum E img)) = take 64 sums"
proof (cases "64 \<le> length sums")
  case True
  then show ?thesis using assms
    by (simp add: ImagePrepare_verify_def sha256encode_def ReadFile_long)
next
  case False
  then have "length (take 64 sums) \<noteq> 64" by simp
  then have "EncodeToString (Sum_bytes (sha256_Sum E img)) \<noteq> take 64 sums"
    using length_digest_text by metis
  then show ?thesis using assms False
    by (simp add: ImagePrepare_verify_def sha256encode_def ReadFile_short)
qed

lemma verify_needs_files:
  assumes "ImagePrepare_verify E pwd version arch s = Inr ()"
  shows "\<exists>img sums. lookup s (imagePath pwd version arch) = Found (File img)
                   \<and> lookup s (sha256sumPath pwd version arch) = Found (File sums)"
proof -
  obtain img where i: "lookup s (imagePath pwd version arch) = Found (File img)"
    using assms
    by (auto simp: ImagePrepare_verify_def sha256encode_def split: found.splits node.splits)
  obtain sums where "lookup s (sha256sumPath pwd version arch) = Found (File sums)"
    using assms i
    by (auto simp: ImagePrepare_verify_def sha256encode_def ReadFile_def
        split: found.splits node.splits option.splits)
  with i show ?thesis by blast
qed

lemma verify_iff:
  "ImagePrepare_verify E pwd version arch s = Inr ()
   \<longleftrightarrow> (\<exists>img sums. lookup s (imagePath pwd version arch) = Found (File img)
                   \<and> lookup s (sha256sumPath pwd version arch) = Found (File sums)
                   \<and> EncodeToString (Sum_bytes (sha256_Sum E img)) = take 64 sums)"
proof
  assume v: "ImagePrepare_verify E pwd version arch s = Inr ()"
  from verify_needs_files [OF v] obtain img sums
    where f: "lookup s (imagePath pwd version arch) = Found (File img)"
      "lookup s (sha256sumPath pwd version arch) = Found (File sums)"
    by blast
  from verify_files [OF f, of E] v f
  show "\<exists>img sums. lookup s (imagePath pwd version arch) = Found (File img)
                   \<and> lookup s (sha256sumPath pwd version arch) = Found (File sums)
                   \<and> EncodeToString (Sum_bytes (sha256_Sum E img)) = take 64 sums"
    by blast
next
  assume "\<exists>img sums. lookup s (imagePath pwd version arch) = Found (File img)
                   \<and> lookup s (sha256sumPath pwd version arch) = Found (File sums)
                   \<and> EncodeToString (Sum_bytes (sha256_Sum E img)) = take 64 sums"
  then obtain img sums
    where f: "lookup s (imagePath pwd version arch) = Found (File img)"
      "lookup s (sha256sumPath pwd version arch) = Found (File sums)"
      and d: "EncodeToString (Sum_bytes (sha256_Sum E img)) = take 64 sums"
    by blast
  from verify_files [OF f, of E] d
  show "ImagePrepare_verify E pwd version arch s = Inr ()" by simp
qed

lemma verify_mismatch:
  assumes "lookup s (imagePath pwd version arch) = Found (File img)"
    and "lookup s (sha256sumPath pwd version arch) = Found (File sums)"
    and "64 \<le> length sums"
    and "EncodeToString (Sum_bytes (sha256_Sum E img)) \<noteq> take 64 sums"
  shows "ImagePrepare_verify E pwd version arch s = Inl (Panic ''Sha256 Sum Error.'')"
  using assms by (simp add: ImagePrepare_verify_def sha256encode_def ReadFile_long)

lemma verify_short:
  assumes "lookup s (imagePath pwd version arch) = Found (File img)"
    and "lookup s (sha256sumPath pwd version arch) = Found (File sums)"
    and "length sums < 64"
  shows "ImagePrepare_verify E pwd version arch s = Inl SliceBounds"
  using assms by (simp add: ImagePrepare_verify_def sha256encode_def ReadFile_short)

subsection \<open>The loops stop at the first pass that fails\<close>

lemma archs_append:
  "ImagePrepare_archs E pwd version (as1 @ as2) s =
     (case ImagePrepare_archs E pwd version as1 s of
        (Inl f, s1) \<Rightarrow> (Inl f, s1)
      | (Inr u, s1) \<Rightarrow> ImagePrepare_archs E pwd version as2 s1)"
proof (induction as1 arbitrary: s)
  case Nil
  show ?case by simp
next
  case (Cons arch as1)
  show ?case
    by (cases "ImagePrepare_body E pwd version arch s") (auto simp: Cons.IH split: sum.splits)
qed

lemma versions_append:
  "ImagePrepare_versions E pwd (vs1 @ vs2) archs s =
     (case ImagePrepare_versions E pwd vs1 archs s of
        (Inl f, s1) \<Rightarrow> (Inl f, s1)
      | (Inr u, s1) \<Rightarrow> ImagePrepare_versions E pwd vs2 archs s1)"
proof (induction vs1 arbitrary: s)
  case Nil
  show ?case by simp
next
  case (Cons version vs1)
  show ?case
    by (cases "ImagePrepare_archs E pwd version archs s") (auto simp: Cons.IH split: sum.splits)
qed

text \<open>
  The pass of any pair: when the versions before it have been done (\<open>s0\<close>) and then the
  architectures before it (\<open>s1\<close>), the run is the pass from \<open>s1\<close> followed by the rest.
\<close>

lemma ImagePrepare_at_pair:
  assumes "ImagePrepare_versions E (wd s) vs1 (as1 @ arch # as2) s = (Inr (), s0)"
    and "ImagePrepare_archs E (wd s) version as1 s0 = (Inr (), s1)"
  shows "ImagePrepare E (vs1 @ version # vs2) (as1 @ arch # as2) s =
           (case ImagePrepare_body E (wd s) version arch s1 of
              (Inl f, s2) \<Rightarrow> (Inl f, s2)
            | (Inr u, s2) \<Rightarrow>
                (case ImagePrepare_archs E (wd s) version as2 s2 of
                   (Inl f, s3) \<Rightarrow> (Inl f, s3)
                 | (Inr u, s3) \<Rightarrow> ImagePrepare_versions E (wd s) vs2 (as1 @ arch # as2) s3))"
proof -
  have a: "ImagePrepare_archs E (wd s) version (as1 @ arch # as2) s0 =
             (case ImagePrepare_body E (wd s) version arch s1 of
                (Inl f, s2) \<Rightarrow> (Inl f, s2)
              | (Inr u, s2) \<Rightarrow> ImagePrepare_archs E (wd s) version as2 s2)"
    by (simp add: archs_append assms(2))
  show ?thesis
    unfolding ImagePrepare_def versions_append [of E "wd s" vs1 "version # vs2"] assms(1)
    by (cases "ImagePrepare_body E (wd s) version arch s1")
      (auto simp: a split: sum.splits prod.splits)
qed

lemma pair_failure:
  assumes "ImagePrepare_versions E (wd s) vs1 (as1 @ arch # as2) s = (Inr (), s0)"
    and "ImagePrepare_archs E (wd s) version as1 s0 = (Inr (), s1)"
    and "ImagePrepare_body E (wd s) version arch s1 = (Inl f, s2)"
  shows "ImagePrepare E (vs1 @ version # vs2) (as1 @ arch # as2) s = (Inl f, s2)"
  by (simp add: ImagePrepare_at_pair [OF assms(1,2)] assms(3))

subsection \<open>A pass after its downloads\<close>

lemma body_verify_failure:
  assumes "ImagePrepare_fetch E pwd version arch (ImagePrepare_mkdir E pwd version arch s) = (Inr (), s2)"
    and "ImagePrepare_verify E pwd version arch s2 = Inl f"
  shows "ImagePrepare_body E pwd version arch s = (Inl f, s2)"
  using assms by (simp add: ImagePrepare_body_def)

lemma body_rootfs:
  assumes "ImagePrepare_fetch E pwd version arch (ImagePrepare_mkdir E pwd version arch s) = (Inr (), s2)"
    and "ImagePrepare_verify E pwd version arch s2 = Inr ()"
  shows "ImagePrepare_body E pwd version arch s = ImagePrepare_rootfs E pwd version arch s2"
  using assms by (simp add: ImagePrepare_body_def)

lemma mkdirs_existing: "resolve files qs p = Found Dir \<Longrightarrow> mkdirs files (qs @ [p]) = (None, files)"
  by (induction qs) (auto split: option.splits node.splits)

lemma mkdir_existing:
  "lookup s (ImagePrepare_dir pwd version arch) = Found Dir
   \<Longrightarrow> MkdirAll_fault E (ImagePrepare_dir pwd version arch) = None
   \<Longrightarrow> ImagePrepare_mkdir E pwd version arch s = s"
  by (simp add: ImagePrepare_mkdir_def os_MkdirAll_def lookup_def mkdirs_existing)

lemma PathExists_found:
  "lookup s p = Found n \<Longrightarrow> Stat_fault E p = None \<Longrightarrow> PathExists E p s = (True, None)"
  by (simp add: PathExists_def os_Stat_def)

lemma PathExists_missing:
  "lookup s p = ENOENT \<Longrightarrow> Stat_fault E p = None \<Longrightarrow> PathExists E p s = (False, None)"
  by (simp add: PathExists_def os_Stat_def)

lemma fetch_present:
  assumes "PathExists E (imagePath pwd version arch) s = (True, None)"
    and "PathExists E (sha256sumPath pwd version arch) s = (True, None)"
  shows "ImagePrepare_fetch E pwd version arch s = (Inr (), s)"
  using assms by (simp add: ImagePrepare_fetch_def)

lemma fetch_stat_error:
  "PathExists E (imagePath pwd version arch) s = (b, Some e)
   \<Longrightarrow> ImagePrepare_fetch E pwd version arch s = (Inl (Panic e), s)"
  by (simp add: ImagePrepare_fetch_def)

lemma body_fetch_failure:
  "ImagePrepare_fetch E pwd version arch (ImagePrepare_mkdir E pwd version arch s) = (Inl f, s2)
   \<Longrightarrow> ImagePrepare_body E pwd version arch s = (Inl f, s2)"
  by (simp add: ImagePrepare_body_def)

lemma rootfs_stat_error:
  "PathExists E (rootfsPath pwd version arch) s = (b, Some err)
   \<Longrightarrow> ImagePrepare_rootfs E pwd version arch s = (Inl (Panic err), s)"
  by (simp add: ImagePrepare_rootfs_def)

lemma rootfs_not_linux:
  "PathExists E (rootfsPath pwd version arch) s = (b, None) \<Longrightarrow> GOOS E \<noteq> ''linux''
   \<Longrightarrow> ImagePrepare_rootfs E pwd version arch s = (Inl (Panic ''Only Linux Run.''), s)"
  by (simp add: ImagePrepare_rootfs_def)

lemma rootfs_present:
  "PathExists E (rootfsPath pwd version arch) s = (True, None) \<Longrightarrow> GOOS E = ''linux''
   \<Longrightarrow> ImagePrepare_rootfs E pwd version arch s = (Inr (), s)"
  by (simp add: ImagePrepare_rootfs_def)

lemma rootfs_absent:
  "PathExists E (rootfsPath pwd version arch) s = (False, None) \<Longrightarrow> GOOS E = ''linux''
   \<Longrightarrow> ImagePrepare_rootfs E pwd version arch s = ImagePrepare_extract E pwd version arch s"
  by (simp add: ImagePrepare_rootfs_def)

subsection \<open>The trace only grows\<close>

lemma emit_mono: "prefix xs (trace s) \<Longrightarrow> prefix xs (trace (emit e s))"
  by (simp add: emit_def)

lemma Downloader_Read_mono:
  "prefix xs (trace s) \<Longrightarrow> prefix xs (trace (snd (Downloader_Read d n s)))"
  by (auto simp: Downloader_Read_def Let_def intro!: emit_mono split: sum.splits)

lemma file_Write_trace: "trace (file_Write p b s) = trace s"
  by (simp add: file_Write_def)

lemma io_Copy_mono:
  "prefix xs (trace s) \<Longrightarrow> prefix xs (trace (snd (io_Copy p d pieces ending s)))"
proof (induction pieces arbitrary: d s)
  case Nil
  from Downloader_Read_mono [OF Nil, of d 0] show ?case
    by (cases "Downloader_Read d 0 s") (auto split: sum.splits)
next
  case (Cons piece pieces)
  from Downloader_Read_mono [OF Cons.prems, of d "length piece"]
  show ?case
    by (cases "Downloader_Read d (length piece) s")
      (auto split: sum.splits intro!: Cons.IH simp: file_Write_trace)
qed

lemma os_Create_trace: "os_Create p s = Inr s' \<Longrightarrow> trace s' = trace s"
  by (auto simp: os_Create_def split: if_splits found.splits node.splits)

lemma downloadFile_trace:
  "prefix xs (trace s @ [HttpGet url]) \<Longrightarrow> prefix xs (trace (snd (downloadFile E url p s)))"
proof -
  assume p: "prefix xs (trace s @ [HttpGet url])"
  let ?s1 = "emit (HttpGet url) s"
  have p1: "prefix xs (trace ?s1)" using p by (simp add: emit_def)
  show ?thesis
  proof (cases "http_Get E url")
    case (Inl err)
    then show ?thesis using p1 by (simp add: downloadFile_def)
  next
    case (Inr resp)
    show ?thesis
    proof (cases "os_Create p ?s1")
      case (Inl err)
      then show ?thesis using p1 Inr by (simp add: downloadFile_def)
    next
      case c: (Inr s2)
      then have "prefix xs (trace s2)" using p1 by (simp add: os_Create_trace)
      from io_Copy_mono [OF this, of p "\<lparr>Total = ContentLength resp, Current = 0\<rparr>" "Body resp" "BodyErr resp"]
      show ?thesis using Inr c
        by (cases "io_Copy p \<lparr>Total = ContentLength resp, Current = 0\<rparr> (Body resp) (BodyErr resp) s2")
          (auto simp: downloadFile_def split: sum.splits option.splits)
    qed
  qed
qed

lemma downloadFile_mono:
  "prefix xs (trace s) \<Longrightarrow> prefix xs (trace (snd (downloadFile E url p s)))"
  by (rule downloadFile_trace) simp

lemma mkdir_mono:
  "prefix xs (trace s) \<Longrightarrow> prefix xs (trace (ImagePrepare_mkdir E pwd version arch s))"
  by (auto simp: ImagePrepare_mkdir_def os_MkdirAll_def intro!: emit_mono split: option.splits prod.splits)

lemma fetch_mono:
  assumes "prefix xs (trace s)"
  shows "prefix xs (trace (snd (ImagePrepare_fetch E pwd version arch s)))"
proof -
  let ?u = "BasicURL E version @ arch @ ''/'' @ imageFile arch"
  let ?d = "downloadFile E ?u (imagePath pwd version arch) (emit (Print ?u) s)"
  have d: "prefix xs (trace (snd ?d))"
    using assms by (intro downloadFile_mono emit_mono)
  have e: "prefix xs (trace (snd (downloadFile E u' p' s')))" if "prefix xs (trace s')" for u' p' s'
    using that by (rule downloadFile_mono)
  show ?thesis
    using assms d
    by (cases ?d) (auto simp: ImagePrepare_fetch_def PathExists_def intro!: e split: stat.splits sum.splits)
qed

lemma prefix_third: "prefix xs (ys @ [a, b]) \<Longrightarrow> prefix xs (ys @ [a, b, c])"
  using prefix_prefix [of xs "ys @ [a, b]" "[c]"] by simp

lemma ExecCommand_trace:
  "prefix xs (trace s @ [Print c, Exec c]) \<Longrightarrow> prefix xs (trace (snd (ExecCommand E c s)))"
  by (cases "bash E c (wd s) (fs s)")
    (auto simp: ExecCommand_def Let_def emit_def prefix_third split: option.splits)

lemma ExecCommand_mono:
  "prefix xs (trace s) \<Longrightarrow> prefix xs (trace (snd (ExecCommand E c s)))"
  by (rule ExecCommand_trace) simp

lemma ExecCommand_step:
  "ExecCommand E c s = (r, s') \<Longrightarrow> prefix xs (trace s) \<Longrightarrow> prefix xs (trace s')"
  using ExecCommand_mono [of xs s E c] by simp

lemma os_Chdir_trace: "trace (os_Chdir d s) = trace s"
  by (simp add: os_Chdir_def)

lemma extract_trace:
  assumes "prefix xs (trace s @ [Print (tar_Command arch), Exec (tar_Command arch)])"
  shows "prefix xs (trace (snd (ImagePrepare_extract E pwd version arch s)))"
proof -
  let ?s1 = "os_Chdir (ImagePrepare_dir pwd version arch) s"
  obtain r2 s2 where x: "ExecCommand E (tar_Command arch) ?s1 = (r2, s2)"
    by (cases "ExecCommand E (tar_Command arch) ?s1")
  have 2: "prefix xs (trace s2)"
    using ExecCommand_trace [of xs ?s1 "tar_Command arch" E] assms x by (simp add: os_Chdir_trace)
  show ?thesis
    unfolding ImagePrepare_extract_def Let_def x
    using 2
    by (auto split: prod.splits list.splits intro!: emit_mono elim!: ExecCommand_step)
qed

lemma rootfs_mono:
  "prefix xs (trace s) \<Longrightarrow> prefix xs (trace (snd (ImagePrepare_rootfs E pwd version arch s)))"
  by (auto simp: ImagePrepare_rootfs_def PathExists_def intro!: extract_trace split: stat.splits)

lemma body_mono:
  assumes "prefix xs (trace s)"
  shows "prefix xs (trace (snd (ImagePrepare_body E pwd version arch s)))"
proof -
  let ?s1 = "ImagePrepare_mkdir E pwd version arch s"
  have 1: "prefix xs (trace ?s1)" using assms by (rule mkdir_mono)
  obtain r s2 where f: "ImagePrepare_fetch E pwd version arch ?s1 = (r, s2)"
    by (cases "ImagePrepare_fetch E pwd version arch ?s1")
  have 2: "prefix xs (trace s2)" using fetch_mono [OF 1, of E pwd version arch] f by simp
  show ?thesis
    using 2 rootfs_mono [OF 2, of E pwd version arch]
    by (auto simp: ImagePrepare_body_def f split: sum.splits)
qed

lemma archs_mono:
  "prefix xs (trace s) \<Longrightarrow> prefix xs (trace (snd (ImagePrepare_archs E pwd version archs s)))"
proof (induction archs arbitrary: s)
  case Nil
  then show ?case by simp
next
  case (Cons arch archs)
  from body_mono [OF Cons.prems, of E pwd version arch]
  show ?case
    by (cases "ImagePrepare_body E pwd version arch s") (auto split: sum.splits intro!: Cons.IH)
qed

lemma versions_mono:
  "prefix xs (trace s) \<Longrightarrow> prefix xs (trace (snd (ImagePrepare_versions E pwd vs archs s)))"
proof (induction vs arbitrary: s)
  case Nil
  then show ?case by simp
next
  case (Cons version vs)
  from archs_mono [OF Cons.prems, of E pwd version archs]
  show ?case
    by (cases "ImagePrepare_archs E pwd version archs s") (auto split: sum.splits intro!: Cons.IH)
qed

lemma pair_trace:
  assumes "ImagePrepare_versions E (wd s) vs1 (as1 @ arch # as2) s = (Inr (), s0)"
    and "ImagePrepare_archs E (wd s) version as1 s0 = (Inr (), s1)"
    and "prefix xs (trace (snd (ImagePrepare_body E (wd s) version arch s1)))"
  shows "prefix xs (trace (snd (ImagePrepare E (vs1 @ version # vs2) (as1 @ arch # as2) s)))"
proof -
  obtain r s2 where b: "ImagePrepare_body E (wd s) version arch s1 = (r, s2)"
    by (cases "ImagePrepare_body E (wd s) version arch s1")
  have 2: "prefix xs (trace s2)" using assms(3) b by simp
  obtain r' s3 where a: "ImagePrepare_archs E (wd s) version as2 s2 = (r', s3)"
    by (cases "ImagePrepare_archs E (wd s) version as2 s2")
  have 3: "prefix xs (trace s3)" using archs_mono [OF 2, of E "wd s" version as2] a by simp
  show ?thesis
    using 2 3 versions_mono [OF 3, of E "wd s" vs2 "as1 @ arch # as2"]
    by (auto simp: ImagePrepare_at_pair [OF assms(1,2)] a b split: sum.splits)
qed

lemma body_after_fetch:
  assumes "prefix xs (trace (snd (ImagePrepare_fetch E pwd version arch
                                    (ImagePrepare_mkdir E pwd version arch s))))"
  shows "prefix xs (trace (snd (ImagePrepare_body E pwd version arch s)))"
proof -
  let ?s1 = "ImagePrepare_mkdir E pwd version arch s"
  obtain r s2 where f: "ImagePrepare_fetch E pwd version arch ?s1 = (r, s2)"
    by (cases "ImagePrepare_fetch E pwd version arch ?s1")
  have 2: "prefix xs (trace s2)" using assms f by simp
  show ?thesis
    using 2 rootfs_mono [OF 2, of E pwd version arch]
    by (auto simp: ImagePrepare_body_def f split: sum.splits)
qed

lemma fetch_downloads_first:
  assumes "PathExists E (imagePath pwd version arch) s = (False, None)"
    and "prefix xs (trace s @ [Print (BasicURL E version @ arch @ ''/'' @ imageFile arch),
                                 HttpGet (BasicURL E version @ arch @ ''/'' @ imageFile arch)])"
  shows "prefix xs (trace (snd (ImagePrepare_fetch E pwd version arch s)))"
proof -
  let ?u = "BasicURL E version @ arch @ ''/'' @ imageFile arch"
  let ?d = "downloadFile E ?u (imagePath pwd version arch) (emit (Print ?u) s)"
  have d: "prefix xs (trace (snd ?d))"
    using assms(2) by (intro downloadFile_trace) (simp add: emit_def)
  have e: "prefix xs (trace (snd (downloadFile E u' p' s')))" if "prefix xs (trace s')" for u' p' s'
    using that by (rule downloadFile_mono)
  show ?thesis
    using assms(1) d
    by (cases ?d)
      (auto simp: ImagePrepare_fetch_def intro!: e split: sum.splits prod.splits option.splits)
qed

lemma mkdir_failure:
  "os_MkdirAll E (ImagePrepare_dir pwd version arch) s = (Some err, s')
   \<Longrightarrow> ImagePrepare_mkdir E pwd version arch s = emit (Print err) s'"
  by (simp add: ImagePrepare_mkdir_def)

lemma os_MkdirAll_trace: "os_MkdirAll E p s = (r, s') \<Longrightarrow> trace s' = trace s"
  by (auto simp: os_MkdirAll_def split: option.splits prod.splits)

lemma lookup_emit: "lookup (emit e s) p = lookup s p"
  by (simp add: lookup_def emit_def)

lemma PathExists_emit: "PathExists E p (emit e s) = PathExists E p s"
  unfolding PathExists_def os_Stat_def lookup_emit ..

subsection \<open>The example inputs, evaluated\<close>

lemma example_digest_eq: "EncodeToString (Sum_bytes (example_Sum ''IMAGE'')) = example_digest"
  by (simp add: example_Sum_def example_digest_def EncodeToString_def Sum_bytes_def hextable_def upt_rec)

lemmas path_defs = ImagePrepare_dir_def imagePath_def sha256sumPath_def rootfsPath_def imageFile_def
  sha256sumFile_def rootfsFile_def filepath_Join_def filepath_Clean_def Clean_render_def

lemma example_paths:
  "ImagePrepare_dir ''/work'' ''22.03-lts'' ''x86_64'' = ''/work/openEuler/22.03-lts/x86_64''"
  "imagePath ''/work'' ''22.03-lts'' ''x86_64'' = ''/work/openEuler/22.03-lts/x86_64/openEuler-docker.x86_64.tar.xz''"
  "sha256sumPath ''/work'' ''22.03-lts'' ''x86_64'' = ''/work/openEuler/22.03-lts/x86_64/openEuler-docker.x86_64.tar.xz.sha256sum''"
  "rootfsPath ''/work'' ''22.03-lts'' ''x86_64'' = ''/work/openEuler/22.03-lts/x86_64/openEuler-docker-rootfs.x86_64.tar''"
  "ImagePrepare_dir ''/work'' ''22.03-lts'' ''aarch64'' = ''/work/openEuler/22.03-lts/aarch64''"
  "imagePath ''/work'' ''22.03-lts'' ''aarch64'' = ''/work/openEuler/22.03-lts/aarch64/openEuler-docker.aarch64.tar.xz''"
  "sha256sumPath ''/work'' ''22.03-lts'' ''aarch64'' = ''/work/openEuler/22.03-lts/aarch64/openEuler-docker.aarch64.tar.xz.sha256sum''"
  "rootfsPath ''/work'' ''22.03-lts'' ''aarch64'' = ''/work/openEuler/22.03-lts/aarch64/openEuler-docker-rootfs.aarch64.tar''"
  by (simp_all add: path_defs)

lemma example_ancestors:
  "ancestors ''/work/openEuler/22.03-lts/x86_64''
     = [''/work'', ''/work/openEuler'', ''/work/openEuler/22.03-lts'']"
  "ancestors ''/work/openEuler/22.03-lts/aarch64''
     = [''/work'', ''/work/openEuler'', ''/work/openEuler/22.03-lts'']"
  "ancestors ''/work/openEuler/22.03-lts/x86_64/openEuler-docker.x86_64.tar.xz''
     = [''/work'', ''/work/openEuler'', ''/work/openEuler/22.03-lts'', ''/work/openEuler/22.03-lts/x86_64'']"
  "ancestors ''/work/openEuler/22.03-lts/x86_64/openEuler-docker.x86_64.tar.xz.sha256sum''
     = [''/work'', ''/work/openEuler'', ''/work/openEuler/22.03-lts'', ''/work/openEuler/22.03-lts/x86_64'']"
  "ancestors ''/work/openEuler/22.03-lts/x86_64/openEuler-docker-rootfs.x86_64.tar''
     = [''/work'', ''/work/openEuler'', ''/work/openEuler/22.03-lts'', ''/work/openEuler/22.03-lts/x86_64'']"
  "ancestors ''/work/openEuler/22.03-lts/aarch64/openEuler-docker.aarch64.tar.xz''
     = [''/work'', ''/work/openEuler'', ''/work/openEuler/22.03-lts'', ''/work/openEuler/22.03-lts/aarch64'']"
  "ancestors ''/work/openEuler/22.03-lts/aarch64/openEuler-docker.aarch64.tar.xz.sha256sum''
     = [''/work'', ''/work/openEuler'', ''/work/openEuler/22.03-lts'', ''/work/openEuler/22.03-lts/aarch64'']"
  "ancestors ''/work/openEuler/22.03-lts/aarch64/openEuler-docker-rootfs.aarch64.tar''
     = [''/work'', ''/work/openEuler'', ''/work/openEuler/22.03-lts'', ''/work/openEuler/22.03-lts/aarch64'']"
  by (simp_all add: ancestors_def path_elems_def Clean_render_def)

lemma example_parents:
  "parent_dir ''/work/openEuler/22.03-lts/x86_64/openEuler-docker.x86_64.tar.xz''
     = ''/work/openEuler/22.03-lts/x86_64''"
  "parent_dir ''/work/openEuler/22.03-lts/x86_64/openEuler-docker.x86_64.tar.xz.sha256sum''
     = ''/work/openEuler/22.03-lts/x86_64''"
  "parent_dir ''/work/openEuler/22.03-lts/aarch64/openEuler-docker.aarch64.tar.xz''
     = ''/work/openEuler/22.03-lts/aarch64''"
  "parent_dir ''/work/openEuler/22.03-lts/aarch64/openEuler-docker.aarch64.tar.xz.sha256sum''
     = ''/work/openEuler/22.03-lts/aarch64''"
  by (simp_all add: parent_dir_def filepath_Clean_def Clean_render_def)

lemmas world_defs = PathExists_def os_Stat_def os_MkdirAll_def os_Chdir_def os_Create_def
  lookup_def file_Write_def emit_def
  downloadFile_def Downloader_Read_def int64_div_def ExecCommand_def Println_slice_def
  sha256encode_def ReadFile_def go_slice_def

lemmas pass_defs = ImagePrepare_body_def ImagePrepare_mkdir_def ImagePrepare_fetch_def
  ImagePrepare_verify_def ImagePrepare_rootfs_def ImagePrepare_extract_def
  tar_Command_def ls_Command_def

lemmas example_defs = pass_defs world_defs example_paths example_ancestors example_parents
  example_env_def unpacked_def populated_def fresh_def
  mirror_def BasicURL_def ascii_ToUpper_def imageFile_def sha256sumFile_def example_digest_eq
  example_digest_def

subsection \<open>Checksum verification\<close>

text \<open>
  C3. On the pass of any pair, once its existence checks and downloads are done, the
  verification succeeds exactly when the compressed image and the checksum file are
  regular files and the lower-case hex text of the SHA-256 digest of the image equals the
  first 64 characters of the checksum file; when the checksum file has its 64 characters
  and they differ from the digest text, the whole run ends there with the panic
  \<open>Sha256 Sum Error.\<close>, whatever pairs were still to come.
\<close>

theorem checksum_verification:
  assumes "ImagePrepare_versions E (wd s) vs1 (as1 @ arch # as2) s = (Inr (), s0)"
    and "ImagePrepare_archs E (wd s) version as1 s0 = (Inr (), s1)"
    and "ImagePrepare_fetch E (wd s) version arch (ImagePrepare_mkdir E (wd s) version arch s1)
           = (Inr (), s2)"
  shows "(ImagePrepare_verify E (wd s) version arch s2 = Inr ()
            \<longleftrightarrow> (\<exists>img sums. lookup s2 (imagePath (wd s) version arch) = Found (File img)
                   \<and> lookup s2 (sha256sumPath (wd s) version arch) = Found (File sums)
                   \<and> EncodeToString (Sum_bytes (sha256_Sum E img)) = take 64 sums))
       \<and> (\<forall>img sums. lookup s2 (imagePath (wd s) version arch) = Found (File img)
              \<and> lookup s2 (sha256sumPath (wd s) version arch) = Found (File sums)
              \<and> 64 \<le> length sums
              \<and> EncodeToString (Sum_bytes (sha256_Sum E img)) \<noteq> take 64 sums
            \<longrightarrow> ImagePrepare E (vs1 @ version # vs2) (as1 @ arch # as2) s
                  = (Inl (Panic ''Sha256 Sum Error.''), s2))"
proof (intro conjI allI impI)
  show "ImagePrepare_verify E (wd s) version arch s2 = Inr ()
          \<longleftrightarrow> (\<exists>img sums. lookup s2 (imagePath (wd s) version arch) = Found (File img)
                 \<and> lookup s2 (sha256sumPath (wd s) version arch) = Found (File sums)
                 \<and> EncodeToString (Sum_bytes (sha256_Sum E img)) = take 64 sums)"
    by (rule verify_iff)
next
  fix img sums
  assume "lookup s2 (imagePath (wd s) version arch) = Found (File img)
          \<and> lookup s2 (sha256sumPath (wd s) version arch) = Found (File sums)
          \<and> 64 \<le> length sums
          \<and> EncodeToString (Sum_bytes (sha256_Sum E img)) \<noteq> take 64 sums"
  then have f: "lookup s2 (imagePath (wd s) version arch) = Found (File img)"
    "lookup s2 (sha256sumPath (wd s) version arch) = Found (File sums)"
    and long: "64 \<le> length sums"
    and differ: "EncodeToString (Sum_bytes (sha256_Sum E img)) \<noteq> take 64 sums"
    by blast+
  have "ImagePrepare_verify E (wd s) version arch s2 = Inl (Panic ''Sha256 Sum Error.'')"
    using f long differ by (rule verify_mismatch)
  then have "ImagePrepare_body E (wd s) version arch s1 = (Inl (Panic ''Sha256 Sum Error.''), s2)"
    using assms(3) by (intro body_verify_failure)
  then show "ImagePrepare E (vs1 @ version # vs2) (as1 @ arch # as2) s
               = (Inl (Panic ''Sha256 Sum Error.''), s2)"
    using assms(1,2) by (intro pair_failure)
qed

theorem checksum_verification_witness:
  "fst (ImagePrepare tampering_env [''22.03-lts''] [''x86_64'', ''aarch64'']
          \<lparr>fs = unpacked, wd = ''/work'', trace = []\<rparr>) = Inl (Panic ''Sha256 Sum Error.'')
   \<and> ImagePrepare_verify example_env ''/work'' ''22.03-lts'' ''aarch64''
        (snd (ImagePrepare_fetch example_env ''/work'' ''22.03-lts'' ''aarch64''
                (ImagePrepare_mkdir example_env ''/work'' ''22.03-lts'' ''aarch64''
                   \<lparr>fs = unpacked, wd = ''/work'', trace = []\<rparr>))) = Inr ()"
proof -
  let ?s = "\<lparr>fs = unpacked, wd = ''/work'', trace = []\<rparr>"
  let ?bad = "''1'' @ tl example_digest @ ''  openEuler-docker.tar.xz'' @ [CHR 0x0A]"
  let ?good = "example_digest @ ''  openEuler-docker.tar.xz'' @ [CHR 0x0A]"
  let ?t = "ImagePrepare_fetch tampering_env (wd ?s) ''22.03-lts'' ''aarch64''
              (ImagePrepare_mkdir tampering_env (wd ?s) ''22.03-lts'' ''aarch64'' ?s)"
  let ?e = "ImagePrepare_fetch example_env (wd ?s) ''22.03-lts'' ''aarch64''
              (ImagePrepare_mkdir example_env (wd ?s) ''22.03-lts'' ''aarch64'' ?s)"
  have v: "ImagePrepare_versions E (wd ?s) [] ([''x86_64''] @ ''aarch64'' # []) ?s = (Inr (), ?s)" for E
    by simp
  have a: "ImagePrepare_archs tampering_env (wd ?s) ''22.03-lts'' [''x86_64''] ?s = (Inr (), ?s)"
    "ImagePrepare_archs example_env (wd ?s) ''22.03-lts'' [''x86_64''] ?s = (Inr (), ?s)"
    by (simp_all add: example_defs tampering_env_def)
  have "fst ?t = Inr ()"
    by (simp add: example_defs tampering_env_def)
  then have ft: "?t = (Inr (), snd ?t)" by (simp add: prod_eq_iff)
  have "fst ?e = Inr ()"
    by (simp add: example_defs)
  then have fe: "?e = (Inr (), snd ?e)" by (simp add: prod_eq_iff)
  have lt: "lookup (snd ?t) (imagePath (wd ?s) ''22.03-lts'' ''aarch64'') = Found (File ''IMAGE'')"
    "lookup (snd ?t) (sha256sumPath (wd ?s) ''22.03-lts'' ''aarch64'') = Found (File ?bad)"
    by (simp_all add: example_defs tampering_env_def)
  have le: "lookup (snd ?e) (imagePath (wd ?s) ''22.03-lts'' ''aarch64'') = Found (File ''IMAGE'')"
    "lookup (snd ?e) (sha256sumPath (wd ?s) ''22.03-lts'' ''aarch64'') = Found (File ?good)"
    by (simp_all add: example_defs)
  have dt: "64 \<le> length ?bad"
    "EncodeToString (Sum_bytes (sha256_Sum tampering_env ''IMAGE'')) \<noteq> take 64 ?bad"
    by (simp_all add: tampering_env_def example_env_def example_digest_eq example_digest_def)
  have de: "EncodeToString (Sum_bytes (sha256_Sum example_env ''IMAGE'')) = take 64 ?good"
    by (simp add: example_env_def example_digest_eq example_digest_def)
  from checksum_verification [OF v a(1) ft, of "[]"] lt dt
  have 1: "ImagePrepare tampering_env ([] @ ''22.03-lts'' # []) ([''x86_64''] @ ''aarch64'' # []) ?s
             = (Inl (Panic ''Sha256 Sum Error.''), snd ?t)"
    by blast
  from checksum_verification [OF v a(2) fe, of "[]"] le de
  have 2: "ImagePrepare_verify example_env (wd ?s) ''22.03-lts'' ''aarch64'' (snd ?e) = Inr ()"
    by blast
  from 1 2 show ?thesis by simp
qed

text \<open>
  C9. \<open>ReadFile\<close> takes the first 64 bytes without looking at the length: on the pass
  of any pair, whether the checksum file was on disk or has just been downloaded, a
  checksum file shorter than 64 bytes makes \<open>ReadFile\<close> panic with a slice-bounds error,
  and the whole run ends there with that runtime panic, not with the checksum-mismatch
  panic.
\<close>

theorem short_checksum_file_panics:
  assumes "ImagePrepare_versions E (wd s) vs1 (as1 @ arch # as2) s = (Inr (), s0)"
    and "ImagePrepare_archs E (wd s) version as1 s0 = (Inr (), s1)"
    and "ImagePrepare_fetch E (wd s) version arch (ImagePrepare_mkdir E (wd s) version arch s1)
           = (Inr (), s2)"
    and "lookup s2 (imagePath (wd s) version arch) = Found (File img)"
    and "lookup s2 (sha256sumPath (wd s) version arch) = Found (File sums)"
    and "length sums < 64"
  shows "ReadFile (sha256sumPath (wd s) version arch) s2 = Inl SliceBounds
       \<and> ImagePrepare E (vs1 @ version # vs2) (as1 @ arch # as2) s = (Inl SliceBounds, s2)"
proof
  show "ReadFile (sha256sumPath (wd s) version arch) s2 = Inl SliceBounds"
    using assms(5,6) by (rule ReadFile_short)
next
  have "ImagePrepare_verify E (wd s) version arch s2 = Inl SliceBounds"
    using assms(4-6) by (rule verify_short)
  then have "ImagePrepare_body E (wd s) version arch s1 = (Inl SliceBounds, s2)"
    using assms(3) by (intro body_verify_failure)
  then show "ImagePrepare E (vs1 @ version # vs2) (as1 @ arch # as2) s = (Inl SliceBounds, s2)"
    using assms(1,2) by (intro pair_failure)
qed

theorem short_checksum_file_panics_witness:
  "fst (ImagePrepare truncating_env [''22.03-lts''] [''x86_64'', ''aarch64'']
          \<lparr>fs = unpacked, wd = ''/work'', trace = []\<rparr>) = Inl SliceBounds"
proof -
  let ?s = "\<lparr>fs = unpacked, wd = ''/work'', trace = []\<rparr>"
  let ?t = "ImagePrepare_fetch truncating_env (wd ?s) ''22.03-lts'' ''aarch64''
              (ImagePrepare_mkdir truncating_env (wd ?s) ''22.03-lts'' ''aarch64'' ?s)"
  have v: "ImagePrepare_versions truncating_env (wd ?s) [] ([''x86_64''] @ ''aarch64'' # []) ?s
             = (Inr (), ?s)"
    by simp
  have a: "ImagePrepare_archs truncating_env (wd ?s) ''22.03-lts'' [''x86_64''] ?s = (Inr (), ?s)"
    by (simp add: example_defs truncating_env_def)
  have "fst ?t = Inr ()"
    by (simp add: example_defs truncating_env_def)
  then have ft: "?t = (Inr (), snd ?t)" by (simp add: prod_eq_iff)
  have l: "lookup (snd ?t) (imagePath (wd ?s) ''22.03-lts'' ''aarch64'') = Found (File ''IMAGE'')"
    "lookup (snd ?t) (sha256sumPath (wd ?s) ''22.03-lts'' ''aarch64'')
       = Found (File (take 40 example_digest))"
    by (simp_all add: example_defs truncating_env_def)
  have n: "length (take 40 example_digest) < 64"
    by (simp add: example_digest_def)
  from short_checksum_file_panics [OF v a ft l n, of "[]"]
  show ?thesis by simp
qed

subsection \<open>The host test and the rootfs branch\<close>

text \<open>
  C7 (as amended). The test of the host system stands before the branch on the rootfs
  file, so it is made on the pass of every pair whose checksum verification succeeds and
  whose existence check of the rootfs file returns without error (an error of that check
  is a panic of its own, before the host is looked at): on a host other than Linux the
  run ends there with the panic \<open>Only Linux Run.\<close> whether or not the rootfs file is
  there; on Linux a pass that finds the rootfs file returns in the state its downloads
  left, without running a command.
\<close>

theorem host_check_on_every_pass:
  assumes "ImagePrepare_versions E (wd s) vs1 (as1 @ arch # as2) s = (Inr (), s0)"
    and "ImagePrepare_archs E (wd s) version as1 s0 = (Inr (), s1)"
    and "ImagePrepare_fetch E (wd s) version arch (ImagePrepare_mkdir E (wd s) version arch s1)
           = (Inr (), s2)"
    and "ImagePrepare_verify E (wd s) version arch s2 = Inr ()"
  shows "(\<forall>b err. PathExists E (rootfsPath (wd s) version arch) s2 = (b, Some err)
            \<longrightarrow> ImagePrepare E (vs1 @ version # vs2) (as1 @ arch # as2) s = (Inl (Panic err), s2))
       \<and> (\<forall>b. PathExists E (rootfsPath (wd s) version arch) s2 = (b, None) \<and> GOOS E \<noteq> ''linux''
            \<longrightarrow> ImagePrepare E (vs1 @ version # vs2) (as1 @ arch # as2) s
                  = (Inl (Panic ''Only Linux Run.''), s2))
       \<and> (PathExists E (rootfsPath (wd s) version arch) s2 = (True, None) \<and> GOOS E = ''linux''
            \<longrightarrow> ImagePrepare_body E (wd s) version arch s1 = (Inr (), s2))"
proof -
  have b: "ImagePrepare_body E (wd s) version arch s1 = ImagePrepare_rootfs E (wd s) version arch s2"
    using assms(3,4) by (rule body_rootfs)
  show ?thesis
  proof (intro conjI allI impI)
    fix b' err
    assume "PathExists E (rootfsPath (wd s) version arch) s2 = (b', Some err)"
    then have "ImagePrepare_body E (wd s) version arch s1 = (Inl (Panic err), s2)"
      by (simp add: b rootfs_stat_error)
    then show "ImagePrepare E (vs1 @ version # vs2) (as1 @ arch # as2) s = (Inl (Panic err), s2)"
      using assms(1,2) by (intro pair_failure)
  next
    fix b'
    assume "PathExists E (rootfsPath (wd s) version arch) s2 = (b', None) \<and> GOOS E \<noteq> ''linux''"
    then have "ImagePrepare_body E (wd s) version arch s1 = (Inl (Panic ''Only Linux Run.''), s2)"
      by (simp add: b rootfs_not_linux)
    then show "ImagePrepare E (vs1 @ version # vs2) (as1 @ arch # as2) s
                 = (Inl (Panic ''Only Linux Run.''), s2)"
      using assms(1,2) by (intro pair_failure)
  next
    assume "PathExists E (rootfsPath (wd s) version arch) s2 = (True, None) \<and> GOOS E = ''linux''"
    then show "ImagePrepare_body E (wd s) version arch s1 = (Inr (), s2)"
      by (simp add: b rootfs_present)
  qed
qed

theorem host_check_on_every_pass_witness:
  "fst (ImagePrepare darwin_env [''22.03-lts''] [''x86_64'', ''aarch64'']
          \<lparr>fs = fresh, wd = ''/work'', trace = []\<rparr>) = Inl (Panic ''Only Linux Run.'')
   \<and> ImagePrepare_body example_env ''/work'' ''22.03-lts'' ''x86_64''
        \<lparr>fs = unpacked, wd = ''/work'', trace = []\<rparr>
      = (Inr (), \<lparr>fs = unpacked, wd = ''/work'', trace = []\<rparr>)"
proof -
  let ?f = "\<lparr>fs = fresh, wd = ''/work'', trace = []\<rparr>"
  let ?u = "\<lparr>fs = unpacked, wd = ''/work'', trace = []\<rparr>"
  let ?t = "ImagePrepare_fetch darwin_env (wd ?f) ''22.03-lts'' ''x86_64''
              (ImagePrepare_mkdir darwin_env (wd ?f) ''22.03-lts'' ''x86_64'' ?f)"
  have v: "ImagePrepare_versions E (wd s) [] ([] @ a # r) s = (Inr (), s)"
    and a: "ImagePrepare_archs E (wd s) ''22.03-lts'' [] s = (Inr (), s)" for E s a r
    by simp_all
  have "fst ?t = Inr ()"
    by (simp add: example_defs darwin_env_def)
  then have ft: "?t = (Inr (), snd ?t)" by (simp add: prod_eq_iff)
  have vt: "ImagePrepare_verify darwin_env (wd ?f) ''22.03-lts'' ''x86_64'' (snd ?t) = Inr ()"
    by (simp add: example_defs darwin_env_def)
  have pt: "PathExists darwin_env (rootfsPath (wd ?f) ''22.03-lts'' ''x86_64'') (snd ?t) = (False, None)"
    by (simp add: example_defs darwin_env_def)
  have g: "GOOS darwin_env \<noteq> ''linux''" "GOOS example_env = ''linux''"
    by (simp_all add: darwin_env_def example_env_def)
  from host_check_on_every_pass [OF v a ft vt, of "[]" "[''aarch64'']"] pt g(1)
  have 1: "ImagePrepare darwin_env ([] @ ''22.03-lts'' # []) ([] @ ''x86_64'' # [''aarch64'']) ?f
             = (Inl (Panic ''Only Linux Run.''), snd ?t)"
    by blast
  have fu: "ImagePrepare_fetch example_env (wd ?u) ''22.03-lts'' ''x86_64''
              (ImagePrepare_mkdir example_env (wd ?u) ''22.03-lts'' ''x86_64'' ?u) = (Inr (), ?u)"
    by (simp add: example_defs)
  have vu: "ImagePrepare_verify example_env (wd ?u) ''22.03-lts'' ''x86_64'' ?u = Inr ()"
    by (simp add: example_defs)
  have pu: "PathExists example_env (rootfsPath (wd ?u) ''22.03-lts'' ''x86_64'') ?u = (True, None)"
    by (simp add: example_defs)
  from host_check_on_every_pass [OF v a fu vu, of "[]" "[]"] pu g(2)
  have 2: "ImagePrepare_body example_env (wd ?u) ''22.03-lts'' ''x86_64'' ?u = (Inr (), ?u)"
    by blast
  from 1 2 show ?thesis by simp
qed

text \<open>
  The claim as first stated fails: with the rootfs file in place and every check before it
  passed, a run on a host that is not Linux still ends in the panic of the host test.
\<close>

theorem host_check_counterexample:
  "PathExists darwin_env (rootfsPath ''/work'' ''22.03-lts'' ''x86_64'')
     \<lparr>fs = unpacked, wd = ''/work'', trace = []\<rparr> = (True, None)
   \<and> ImagePrepare darwin_env [''22.03-lts''] [''x86_64'']
        \<lparr>fs = unpacked, wd = ''/work'', trace = []\<rparr>
      = (Inl (Panic ''Only Linux Run.''), \<lparr>fs = unpacked, wd = ''/work'', trace = []\<rparr>)"
  by (simp add: ImagePrepare_def example_defs darwin_env_def)

subsection \<open>The progress line of a download\<close>

text \<open>
  C4. The claim is that the progress division is guarded against a declared length of
  zero. The code divides without a test: when \<open>Total\<close> is zero, \<open>Read\<close> ends in the
  runtime panic "integer divide by zero" whatever was read, and so does the copy loop at
  its first \<open>Read\<close>, before anything is written.
\<close>

theorem Read_divides_by_zero_length:
  "Downloader_Read \<lparr>Total = 0, Current = c\<rparr> n s = (Inl DivideByZero, s)
   \<and> io_Copy filePath \<lparr>Total = 0, Current = c\<rparr> pieces ending s = (Inl DivideByZero, s)"
  by (cases pieces) (simp_all add: Downloader_Read_def int64_div_def)

subsection \<open>Running again on a prepared directory\<close>

text \<open>
  C2. The claim is that a second run over a directory a first run has prepared downloads
  nothing and extracts nothing. The downloads are indeed skipped, but the guard of the
  extraction looks for \<open>openEuler-docker-rootfs.<arch>.tar\<close>, the name the last but one
  command (\<open>xz -z\<close>) compresses into \<open>openEuler-docker-rootfs.<arch>.tar.xz\<close>. On a
  Linux host, with the image, a matching checksum file and the compressed rootfs archive
  in place and the uncompressed name absent, the pass starts the extraction again: the
  first thing the run does is print and execute the \<open>tar -xf\<close> command.
\<close>

theorem second_run_extracts_again:
  assumes "GOOS E = ''linux''"
    and "lookup s (ImagePrepare_dir (wd s) version arch) = Found Dir"
    and "MkdirAll_fault E (ImagePrepare_dir (wd s) version arch) = None"
    and "lookup s (imagePath (wd s) version arch) = Found (File img)"
    and "lookup s (sha256sumPath (wd s) version arch) = Found (File sums)"
    and "EncodeToString (Sum_bytes (sha256_Sum E img)) = take 64 sums"
    and "lookup s (rootfsPath (wd s) version arch @ ''.xz'') = Found (File rootfs)"
    and "lookup s (rootfsPath (wd s) version arch) = ENOENT"
    and "Stat_fault E (imagePath (wd s) version arch) = None"
    and "Stat_fault E (sha256sumPath (wd s) version arch) = None"
    and "Stat_fault E (rootfsPath (wd s) version arch) = None"
  shows "prefix (trace s @ [Print (tar_Command arch), Exec (tar_Command arch)])
           (trace (snd (ImagePrepare E (version # MatchResult) (arch # archs) s)))"
proof -
  have m: "ImagePrepare_mkdir E (wd s) version arch s = s"
    using assms(2,3) by (rule mkdir_existing)
  have f: "ImagePrepare_fetch E (wd s) version arch (ImagePrepare_mkdir E (wd s) version arch s)
           = (Inr (), s)"
    unfolding m using assms(4,5,9,10) by (intro fetch_present PathExists_found)
  have v: "ImagePrepare_verify E (wd s) version arch s = Inr ()"
    using assms(4-6) by (simp add: verify_files)
  have "ImagePrepare_body E (wd s) version arch s = ImagePrepare_rootfs E (wd s) version arch s"
    using f v by (rule body_rootfs)
  also have "\<dots> = ImagePrepare_extract E (wd s) version arch s"
    using assms(8,11,1) by (intro rootfs_absent PathExists_missing)
  finally have "prefix (trace s @ [Print (tar_Command arch), Exec (tar_Command arch)])
                  (trace (snd (ImagePrepare_body E (wd s) version arch s)))"
    by (simp add: extract_trace)
  from pair_trace [of E s "[]" "[]" arch archs s version s, OF _ _ this, of MatchResult]
  show ?thesis by simp
qed

theorem second_run_extracts_again_witness:
  "prefix [Print (tar_Command ''x86_64''), Exec (tar_Command ''x86_64'')]
     (trace (snd (ImagePrepare example_env [''22.03-lts''] [''x86_64'', ''aarch64'']
                    \<lparr>fs = populated, wd = ''/work'', trace = []\<rparr>)))"
proof -
  let ?s = "\<lparr>fs = populated, wd = ''/work'', trace = []\<rparr>"
  let ?sums = "example_digest @ ''  openEuler-docker.tar.xz'' @ [CHR 0x0A]"
  have l: "GOOS example_env = ''linux''" and k: "MkdirAll_fault example_env p = None"
    and n: "Stat_fault example_env p = None" for p
    by (simp_all add: example_env_def)
  have f: "lookup ?s (ImagePrepare_dir (wd ?s) ''22.03-lts'' ''x86_64'') = Found Dir"
    "lookup ?s (imagePath (wd ?s) ''22.03-lts'' ''x86_64'') = Found (File ''IMAGE'')"
    "lookup ?s (sha256sumPath (wd ?s) ''22.03-lts'' ''x86_64'') = Found (File ?sums)"
    "lookup ?s (rootfsPath (wd ?s) ''22.03-lts'' ''x86_64'') = ENOENT"
    by (simp_all add: lookup_def example_paths example_ancestors populated_def)
  have x: "lookup ?s (rootfsPath (wd ?s) ''22.03-lts'' ''x86_64'' @ ''.xz'') = Found (File ''ROOTFS'')"
    by (simp add: lookup_def example_paths populated_def ancestors_def path_elems_def Clean_render_def)
  have d: "EncodeToString (Sum_bytes (sha256_Sum example_env ''IMAGE'')) = take 64 ?sums"
    by (simp add: example_env_def example_digest_eq example_digest_def)
  from second_run_extracts_again [OF l f(1) k f(2,3) d x f(4) n n n, of "[]" "[''aarch64'']"]
  show ?thesis by simp
qed

subsection \<open>A directory that cannot be created\<close>

text \<open>
  C5 (as amended). On the pass of any pair, a failure of \<open>os.MkdirAll\<close> is printed and
  the pass goes on with its existence checks: when the check of the compressed image
  reports it absent, the run prints the error, then prints the image URL and sends the
  download request; when that check itself fails, as it does where a regular file stands
  in the way of the directory, the run ends with the panic of the check, after the error
  of \<open>os.MkdirAll\<close> has been printed.
\<close>

theorem mkdir_failure_not_fatal:
  assumes "ImagePrepare_versions E (wd s) vs1 (as1 @ arch # as2) s = (Inr (), s0)"
    and "ImagePrepare_archs E (wd s) version as1 s0 = (Inr (), s1)"
    and "os_MkdirAll E (ImagePrepare_dir (wd s) version arch) s1 = (Some err, s1')"
  shows "(PathExists E (imagePath (wd s) version arch) s1' = (False, None)
            \<longrightarrow> prefix (trace s1 @ [Print err,
                                     Print (BasicURL E version @ arch @ ''/'' @ imageFile arch),
                                     HttpGet (BasicURL E version @ arch @ ''/'' @ imageFile arch)])
                  (trace (snd (ImagePrepare E (vs1 @ version # vs2) (as1 @ arch # as2) s))))
       \<and> (\<forall>b e. PathExists E (imagePath (wd s) version arch) s1' = (b, Some e)
            \<longrightarrow> ImagePrepare E (vs1 @ version # vs2) (as1 @ arch # as2) s
                  = (Inl (Panic e), emit (Print err) s1'))"
proof (intro conjI allI impI)
  let ?u = "BasicURL E version @ arch @ ''/'' @ imageFile arch"
  let ?m = "emit (Print err) s1'"
  have m: "ImagePrepare_mkdir E (wd s) version arch s1 = ?m"
    using assms(3) by (rule mkdir_failure)
  have t: "trace ?m = trace s1 @ [Print err]"
    using os_MkdirAll_trace [OF assms(3)] by (simp add: emit_def)
  {
    assume "PathExists E (imagePath (wd s) version arch) s1' = (False, None)"
    then have a: "PathExists E (imagePath (wd s) version arch) ?m = (False, None)"
      by (simp add: PathExists_emit)
    have "prefix (trace s1 @ [Print err, Print ?u, HttpGet ?u])
            (trace (snd (ImagePrepare_fetch E (wd s) version arch ?m)))"
      using a by (rule fetch_downloads_first) (simp add: t)
    then have "prefix (trace s1 @ [Print err, Print ?u, HttpGet ?u])
                 (trace (snd (ImagePrepare_body E (wd s) version arch s1)))"
      by (intro body_after_fetch) (simp add: m)
    with assms(1,2)
    show "prefix (trace s1 @ [Print err, Print ?u, HttpGet ?u])
            (trace (snd (ImagePrepare E (vs1 @ version # vs2) (as1 @ arch # as2) s)))"
      by (rule pair_trace)
  }
  {
    fix b e
    assume "PathExists E (imagePath (wd s) version arch) s1' = (b, Some e)"
    then have "PathExists E (imagePath (wd s) version arch) ?m = (b, Some e)"
      by (simp add: PathExists_emit)
    then have "ImagePrepare_fetch E (wd s) version arch ?m = (Inl (Panic e), ?m)"
      by (rule fetch_stat_error)
    then have "ImagePrepare_body E (wd s) version arch s1 = (Inl (Panic e), ?m)"
      by (intro body_fetch_failure) (simp add: m)
    with assms(1,2)
    show "ImagePrepare E (vs1 @ version # vs2) (as1 @ arch # as2) s = (Inl (Panic e), ?m)"
      by (rule pair_failure)
  }
qed

theorem mkdir_failure_not_fatal_witness:
  "prefix [Print ''permission denied'',
           Print ''https://repo.openeuler.org/openEuler-22.03-LTS/docker_img/aarch64/openEuler-docker.aarch64.tar.xz'',
           HttpGet ''https://repo.openeuler.org/openEuler-22.03-LTS/docker_img/aarch64/openEuler-docker.aarch64.tar.xz'']
     (trace (snd (ImagePrepare sealed_env [''22.03-lts''] [''x86_64'', ''aarch64'']
                    \<lparr>fs = unpacked, wd = ''/work'', trace = []\<rparr>)))
   \<and> ImagePrepare example_env [''22.03-lts''] [''x86_64'', ''aarch64'']
        \<lparr>fs = blocked, wd = ''/work'', trace = []\<rparr>
      = (Inl (Panic ''not a directory''),
         \<lparr>fs = blocked, wd = ''/work'', trace = [Print ''not a directory'']\<rparr>)"
proof -
  let ?s = "\<lparr>fs = unpacked, wd = ''/work'', trace = []\<rparr>"
  let ?b = "\<lparr>fs = blocked, wd = ''/work'', trace = []\<rparr>"
  have v: "ImagePrepare_versions sealed_env (wd ?s) [] ([''x86_64''] @ ''aarch64'' # []) ?s = (Inr (), ?s)"
    by simp
  have a: "ImagePrepare_archs sealed_env (wd ?s) ''22.03-lts'' [''x86_64''] ?s = (Inr (), ?s)"
    by (simp add: example_defs sealed_env_def)
  have 1: "os_MkdirAll sealed_env (ImagePrepare_dir (wd ?s) ''22.03-lts'' ''aarch64'') ?s
             = (Some ''permission denied'', ?s)"
    by (simp add: os_MkdirAll_def sealed_env_def example_env_def example_paths)
  have 2: "PathExists sealed_env (imagePath (wd ?s) ''22.03-lts'' ''aarch64'') ?s = (False, None)"
    by (simp add: example_defs sealed_env_def)
  have u: "BasicURL sealed_env ''22.03-lts'' @ ''aarch64'' @ ''/'' @ imageFile ''aarch64''
     = ''https://repo.openeuler.org/openEuler-22.03-LTS/docker_img/aarch64/openEuler-docker.aarch64.tar.xz''"
    by (simp add: BasicURL_def sealed_env_def example_env_def ascii_ToUpper_def imageFile_def)
  from mkdir_failure_not_fatal [OF v a 1, of "[]", THEN conjunct1, rule_format, OF 2, unfolded u]
  have p: "prefix [Print ''permission denied'',
           Print ''https://repo.openeuler.org/openEuler-22.03-LTS/docker_img/aarch64/openEuler-docker.aarch64.tar.xz'',
           HttpGet ''https://repo.openeuler.org/openEuler-22.03-LTS/docker_img/aarch64/openEuler-docker.aarch64.tar.xz'']
     (trace (snd (ImagePrepare sealed_env [''22.03-lts''] [''x86_64'', ''aarch64''] ?s)))"
    by simp
  have w: "ImagePrepare_versions example_env (wd ?b) [] ([] @ ''x86_64'' # [''aarch64'']) ?b = (Inr (), ?b)"
    "ImagePrepare_archs example_env (wd ?b) ''22.03-lts'' [] ?b = (Inr (), ?b)"
    by simp_all
  have 3: "os_MkdirAll example_env (ImagePrepare_dir (wd ?b) ''22.03-lts'' ''x86_64'') ?b
             = (Some ''not a directory'', ?b)"
    by (simp add: os_MkdirAll_def example_env_def example_paths example_ancestors blocked_def fresh_def)
  have 4: "PathExists example_env (imagePath (wd ?b) ''22.03-lts'' ''x86_64'') ?b
             = (False, Some ''not a directory'')"
    by (simp add: example_defs blocked_def)
  from mkdir_failure_not_fatal [OF w 3, of "[]", THEN conjunct2, rule_format, OF 4]
  have q: "ImagePrepare example_env [''22.03-lts''] [''x86_64'', ''aarch64''] ?b
      = (Inl (Panic ''not a directory''),
         \<lparr>fs = blocked, wd = ''/work'', trace = [Print ''not a directory'']\<rparr>)"
    by (simp add: emit_def)
  from p q show ?thesis by blast
qed

text \<open>
  The claim as first stated fails: where no directory can be created, the run still sends
  the download request for the image; it ends only afterwards, when the file cannot be
  created.
\<close>

theorem mkdir_failure_counterexample:
  "os_MkdirAll readonly_env (ImagePrepare_dir ''/work'' ''22.03-lts'' ''x86_64'')
     \<lparr>fs = fresh, wd = ''/work'', trace = []\<rparr>
     = (Some ''permission denied'', \<lparr>fs = fresh, wd = ''/work'', trace = []\<rparr>)
   \<and> ImagePrepare readonly_env [''22.03-lts''] [''x86_64'', ''aarch64'']
         \<lparr>fs = fresh, wd = ''/work'', trace = []\<rparr>
       = (Inl (Panic ''no such file or directory''),
          \<lparr>fs = fresh, wd = ''/work'',
           trace = [Print ''permission denied'',
                    Print ''https://repo.openeuler.org/openEuler-22.03-LTS/docker_img/x86_64/openEuler-docker.x86_64.tar.xz'',
                    HttpGet ''https://repo.openeuler.org/openEuler-22.03-LTS/docker_img/x86_64/openEuler-docker.x86_64.tar.xz'']\<rparr>)"
  by (simp add: ImagePrepare_def example_defs readonly_env_def)

section \<open>Properties of \<open>main\<close>\<close>

text \<open>Nothing in \<open>run\<close> calls \<open>os.Exit\<close>: the usage path of \<open>main\<close> is the only one.\<close>

lemma Downloader_Read_no_Exit: "fst (Downloader_Read d n s) \<noteq> Inl (Exit code)"
  by (auto simp: Downloader_Read_def Let_def int64_div_def split: sum.splits if_splits)

lemma io_Copy_no_Exit: "fst (io_Copy p d pieces ending s) \<noteq> Inl (Exit code)"
proof (induction pieces arbitrary: d s)
  case Nil
  show ?case
    using Downloader_Read_no_Exit [of d 0 s code]
    by (cases "Downloader_Read d 0 s") (auto split: sum.splits)
next
  case (Cons piece pieces)
  show ?case
    using Downloader_Read_no_Exit [of d "length piece" s code] Cons.IH
    by (cases "Downloader_Read d (length piece) s") (auto split: sum.splits)
qed

lemma io_Copy_no_Exit': "io_Copy p d pieces ending s \<noteq> (Inl (Exit code), s')"
  using io_Copy_no_Exit [of p d pieces ending s code] by auto

lemma downloadFile_no_Exit: "fst (downloadFile E url p s) \<noteq> Inl (Exit code)"
  by (auto simp: downloadFile_def Let_def io_Copy_no_Exit io_Copy_no_Exit'
      split: sum.splits prod.splits option.splits)

lemma downloadFile_no_Exit': "downloadFile E url p s \<noteq> (Inl (Exit code), s')"
  using downloadFile_no_Exit [of E url p s code] by auto

lemma fetch_no_Exit: "fst (ImagePrepare_fetch E pwd version arch s) \<noteq> Inl (Exit code)"
  by (auto simp: ImagePrepare_fetch_def PathExists_def downloadFile_no_Exit downloadFile_no_Exit'
      split: stat.splits sum.splits prod.splits)

lemma verify_no_Exit: "ImagePrepare_verify E pwd version arch s \<noteq> Inl (Exit code)"
  by (auto simp: ImagePrepare_verify_def sha256encode_def ReadFile_def
      split: sum.splits option.splits node.splits found.splits)

lemma extract_no_Exit: "fst (ImagePrepare_extract E pwd version arch s) \<noteq> Inl (Exit code)"
  by (auto simp: ImagePrepare_extract_def Let_def split: prod.splits list.splits)

lemma rootfs_no_Exit: "fst (ImagePrepare_rootfs E pwd version arch s) \<noteq> Inl (Exit code)"
  using extract_no_Exit [of E pwd version arch s code]
  by (auto simp: ImagePrepare_rootfs_def PathExists_def split: stat.splits)

lemma body_no_Exit: "fst (ImagePrepare_body E pwd version arch s) \<noteq> Inl (Exit code)"
proof -
  let ?s1 = "ImagePrepare_mkdir E pwd version arch s"
  obtain r s2 where f: "ImagePrepare_fetch E pwd version arch ?s1 = (r, s2)"
    by (cases "ImagePrepare_fetch E pwd version arch ?s1")
  show ?thesis
    using fetch_no_Exit [of E pwd version arch ?s1 code] verify_no_Exit [of E pwd version arch s2 code]
      rootfs_no_Exit [of E pwd version arch s2 code]
    by (auto simp: ImagePrepare_body_def f split: sum.splits)
qed

lemma archs_no_Exit: "fst (ImagePrepare_archs E pwd version archs s) \<noteq> Inl (Exit code)"
proof (induction archs arbitrary: s)
  case Nil
  show ?case by simp
next
  case (Cons arch archs)
  show ?case
    using body_no_Exit [of E pwd version arch s code] Cons.IH
    by (cases "ImagePrepare_body E pwd version arch s") (auto split: sum.splits)
qed

lemma versions_no_Exit: "fst (ImagePrepare_versions E pwd vs archs s) \<noteq> Inl (Exit code)"
proof (induction vs arbitrary: s)
  case Nil
  show ?case by simp
next
  case (Cons version vs)
  show ?case
    using archs_no_Exit [of E pwd version archs s code] Cons.IH
    by (cases "ImagePrepare_archs E pwd version archs s") (auto split: sum.splits)
qed

lemma ImagePrepare_no_Exit: "ImagePrepare E vs archs s \<noteq> (Inl (Exit code), s')"
  using versions_no_Exit [of E "wd s" vs archs s code] by (auto simp: ImagePrepare_def)

lemma GetOpenEulerTag_items_no_Exit: "GetOpenEulerTag_items E items Tag \<noteq> Inl (Exit code)"
  by (induction items arbitrary: Tag) (auto split: option.splits)

lemma GetOpenEulerTag_no_Exit: "GetOpenEulerTag E s \<noteq> (Inl (Exit code), s')"
  using GetOpenEulerTag_items_no_Exit [of E "fst (Visit E)" "[]" code]
  by (auto simp: GetOpenEulerTag_def Let_def split: sum.splits)

lemma GetDockerHubTag_no_Exit: "GetDockerHubTag E s \<noteq> (Inl (Exit code), s')"
  by (auto simp: GetDockerHubTag_def Let_def split: sum.splits)

lemma run_no_Exit: "run E s \<noteq> (Inl (Exit code), s')"
  by (auto simp: run_def GetOpenEulerTag_no_Exit GetDockerHubTag_no_Exit ImagePrepare_no_Exit
      split: sum.splits prod.splits)

lemma run_stages:
  "run E s =
     (case GetOpenEulerTag E s of
        (Inl f, s1) \<Rightarrow> (Inl f, s1)
      | (Inr OpenEulerTag, s1) \<Rightarrow>
          (case GetDockerHubTag E s1 of
             (Inl f, s2) \<Rightarrow> (Inl f, s2)
           | (Inr DockerHubTag, s2) \<Rightarrow>
               ImagePrepare E (MatchTag OpenEulerTag DockerHubTag) [''x86_64'', ''aarch64''] s2))"
  by (simp add: run_def)

lemma main_after_run:
  "run E s = (Inr (), s3) \<Longrightarrow> prefix (trace s3) (trace (snd (main E Args s)))"
  by (auto simp: main_def emit_def split: sum.splits)

subsection \<open>The example runs, evaluated\<close>

lemmas tag_defs = GetOpenEulerTag_def GetDockerHubTag_def MatchDockerImageDir_def go_slice_def
  ascii_ToLower_def emit_def

lemma example_tags:
  "GetOpenEulerTag example_env \<lparr>fs = fresh, wd = ''/work'', trace = []\<rparr>
     = (Inr [''20.03-lts'', ''22.03-lts''],
        \<lparr>fs = fresh, wd = ''/work'', trace = [HttpGet ''https://repo.openeuler.org/'']\<rparr>)"
  "GetDockerHubTag example_env
       \<lparr>fs = fresh, wd = ''/work'', trace = [HttpGet ''https://repo.openeuler.org/'']\<rparr>
     = (Inr [''20.03-lts''],
        \<lparr>fs = fresh, wd = ''/work'',
         trace = [HttpGet ''https://repo.openeuler.org/'',
                  HttpGet ''https://hub.docker.com/v2/repositories/openeuler2k8s/openeuler/tags'']\<rparr>)"
  "MatchTag [''20.03-lts'', ''22.03-lts''] [''20.03-lts''] = [''22.03-lts'']"
  by (simp_all add: tag_defs example_env_def MatchTag_def)

lemma example_materializes:
  "fst (ImagePrepare example_env [''22.03-lts''] [''x86_64'', ''aarch64'']
          \<lparr>fs = fresh, wd = ''/work'',
           trace = [HttpGet ''https://repo.openeuler.org/'',
                    HttpGet ''https://hub.docker.com/v2/repositories/openeuler2k8s/openeuler/tags'']\<rparr>)
     = Inr ()"
  by (simp add: ImagePrepare_def example_defs)

lemma settled_run:
  "run settled_env \<lparr>fs = fresh, wd = ''/work'', trace = []\<rparr>
   = (Inr (), \<lparr>fs = fresh, wd = ''/work'',
               trace = [HttpGet ''https://repo.openeuler.org/'',
                        HttpGet ''https://hub.docker.com/v2/repositories/openeuler2k8s/openeuler/tags'']\<rparr>)"
  by (simp add: run_def tag_defs settled_env_def example_env_def MatchTag_def ImagePrepare_def)

lemma offline_run:
  "run offline_env \<lparr>fs = fresh, wd = ''/work'', trace = []\<rparr>
   = (Inl (Panic ''connection refused''),
      \<lparr>fs = fresh, wd = ''/work'',
       trace = [HttpGet ''https://repo.openeuler.org/'',
                HttpGet ''https://hub.docker.com/v2/repositories/openeuler2k8s/openeuler/tags'']\<rparr>)"
  by (simp add: run_def tag_defs offline_env_def example_env_def)

subsection \<open>The pipeline and the arguments\<close>

text \<open>
  C10. \<open>main\<close> runs the whole pipeline before it looks at the arguments. Whatever the
  arguments are: when the scrape of the mirror, the fetch of the registry's tags or the
  materializer on the reconciled versions ends early, \<open>main\<close> ends the same way in the
  same state; when all three run to their end, everything \<open>main\<close> does afterwards comes
  after their trace; and a run that ends on the usage path has scraped, fetched,
  reconciled with \<open>MatchTag\<close> and materialized for both architectures to the end before
  the message was printed.
\<close>

theorem pipeline_before_argument_check:
  "(\<forall>f s1. GetOpenEulerTag E s = (Inl f, s1) \<longrightarrow> main E Args s = (Inl f, s1))
   \<and> (\<forall>OpenEulerTag s1 f s2.
         GetOpenEulerTag E s = (Inr OpenEulerTag, s1) \<and> GetDockerHubTag E s1 = (Inl f, s2)
         \<longrightarrow> main E Args s = (Inl f, s2))
   \<and> (\<forall>OpenEulerTag s1 DockerHubTag s2 f s3.
         GetOpenEulerTag E s = (Inr OpenEulerTag, s1) \<and> GetDockerHubTag E s1 = (Inr DockerHubTag, s2)
         \<and> ImagePrepare E (MatchTag OpenEulerTag DockerHubTag) [''x86_64'', ''aarch64''] s2 = (Inl f, s3)
         \<longrightarrow> main E Args s = (Inl f, s3))
   \<and> (\<forall>OpenEulerTag s1 DockerHubTag s2 s3.
         GetOpenEulerTag E s = (Inr OpenEulerTag, s1) \<and> GetDockerHubTag E s1 = (Inr DockerHubTag, s2)
         \<and> ImagePrepare E (MatchTag OpenEulerTag DockerHubTag) [''x86_64'', ''aarch64''] s2 = (Inr (), s3)
         \<longrightarrow> prefix (trace s3) (trace (snd (main E Args s))))
   \<and> (\<forall>sf. main E Args s = (Inl (Exit 0), sf)
         \<longrightarrow> (\<exists>OpenEulerTag s1 DockerHubTag s2 s3.
                GetOpenEulerTag E s = (Inr OpenEulerTag, s1)
                \<and> GetDockerHubTag E s1 = (Inr DockerHubTag, s2)
                \<and> ImagePrepare E (MatchTag OpenEulerTag DockerHubTag) [''x86_64'', ''aarch64''] s2
                    = (Inr (), s3)
                \<and> length Args \<noteq> 3 \<and> sf = emit (Print usage) s3))"
proof (intro conjI allI impI)
  fix f s1 assume "GetOpenEulerTag E s = (Inl f, s1)"
  then show "main E Args s = (Inl f, s1)" by (simp add: main_def run_stages)
next
  fix OpenEulerTag s1 f s2
  assume "GetOpenEulerTag E s = (Inr OpenEulerTag, s1) \<and> GetDockerHubTag E s1 = (Inl f, s2)"
  then show "main E Args s = (Inl f, s2)" by (simp add: main_def run_stages)
next
  fix OpenEulerTag s1 DockerHubTag s2 f s3
  assume "GetOpenEulerTag E s = (Inr OpenEulerTag, s1) \<and> GetDockerHubTag E s1 = (Inr DockerHubTag, s2)
         \<and> ImagePrepare E (MatchTag OpenEulerTag DockerHubTag) [''x86_64'', ''aarch64''] s2 = (Inl f, s3)"
  then show "main E Args s = (Inl f, s3)" by (simp add: main_def run_stages)
next
  fix OpenEulerTag s1 DockerHubTag s2 s3
  assume "GetOpenEulerTag E s = (Inr OpenEulerTag, s1) \<and> GetDockerHubTag E s1 = (Inr DockerHubTag, s2)
         \<and> ImagePrepare E (MatchTag OpenEulerTag DockerHubTag) [''x86_64'', ''aarch64''] s2 = (Inr (), s3)"
  then have "run E s = (Inr (), s3)" by (simp add: run_stages)
  then show "prefix (trace s3) (trace (snd (main E Args s)))" by (rule main_after_run)
next
  fix sf assume m: "main E Args s = (Inl (Exit 0), sf)"
  obtain r1 s1 where g: "GetOpenEulerTag E s = (r1, s1)" by (cases "GetOpenEulerTag E s")
  obtain OpenEulerTag where r1: "r1 = Inr OpenEulerTag"
    using m g GetOpenEulerTag_no_Exit [of E s 0 s1]
    by (cases r1) (auto simp: main_def run_stages)
  obtain r2 s2 where h: "GetDockerHubTag E s1 = (r2, s2)" by (cases "GetDockerHubTag E s1")
  obtain DockerHubTag where r2: "r2 = Inr DockerHubTag"
    using m g r1 h GetDockerHubTag_no_Exit [of E s1 0 s2]
    by (cases r2) (auto simp: main_def run_stages)
  let ?i = "ImagePrepare E (MatchTag OpenEulerTag DockerHubTag) [''x86_64'', ''aarch64''] s2"
  obtain r3 s3 where i: "?i = (r3, s3)" by (cases ?i)
  have r3: "r3 = Inr ()"
    using m g r1 h r2 i ImagePrepare_no_Exit [of E "MatchTag OpenEulerTag DockerHubTag" _ s2 0 s3]
    by (cases r3) (auto simp: main_def run_stages)
  have "length Args \<noteq> 3 \<and> sf = emit (Print usage) s3"
    using m g r1 h r2 i r3 by (auto simp: main_def run_stages split: sum.splits if_splits)
  then show "\<exists>OpenEulerTag s1 DockerHubTag s2 s3.
                GetOpenEulerTag E s = (Inr OpenEulerTag, s1)
                \<and> GetDockerHubTag E s1 = (Inr DockerHubTag, s2)
                \<and> ImagePrepare E (MatchTag OpenEulerTag DockerHubTag) [''x86_64'', ''aarch64''] s2
                    = (Inr (), s3)
                \<and> length Args \<noteq> 3 \<and> sf = emit (Print usage) s3"
    using g r1 h r2 i r3 by blast
qed

theorem pipeline_before_argument_check_witness:
  "fst (main example_env [''release''] \<lparr>fs = fresh, wd = ''/work'', trace = []\<rparr>) = Inl (Exit 0)
   \<and> (\<exists>s1 s2 s3.
         GetOpenEulerTag example_env \<lparr>fs = fresh, wd = ''/work'', trace = []\<rparr>
           = (Inr [''20.03-lts'', ''22.03-lts''], s1)
         \<and> GetDockerHubTag example_env s1 = (Inr [''20.03-lts''], s2)
         \<and> ImagePrepare example_env [''22.03-lts''] [''x86_64'', ''aarch64''] s2 = (Inr (), s3)
         \<and> snd (main example_env [''release''] \<lparr>fs = fresh, wd = ''/work'', trace = []\<rparr>)
             = emit (Print usage) s3)
   \<and> main offline_env [''release'', ''dir'', ''name''] \<lparr>fs = fresh, wd = ''/work'', trace = []\<rparr>
       = (Inl (Panic ''connection refused''),
          \<lparr>fs = fresh, wd = ''/work'',
           trace = [HttpGet ''https://repo.openeuler.org/'',
                    HttpGet ''https://hub.docker.com/v2/repositories/openeuler2k8s/openeuler/tags'']\<rparr>)"
proof -
  let ?s = "\<lparr>fs = fresh, wd = ''/work'', trace = []\<rparr>"
  let ?s1 = "\<lparr>fs = fresh, wd = ''/work'', trace = [HttpGet ''https://repo.openeuler.org/'']\<rparr>"
  have r: "fst (run example_env ?s) = Inr ()"
    by (simp add: run_stages example_tags example_materializes)
  then have m: "main example_env [''release''] ?s
                  = (Inl (Exit 0), snd (main example_env [''release''] ?s))"
    by (cases "run example_env ?s") (auto simp: main_def)
  from pipeline_before_argument_check [of example_env ?s "[''release'']", THEN conjunct2,
      THEN conjunct2, THEN conjunct2, THEN conjunct2, rule_format, OF m]
  obtain OpenEulerTag s1 DockerHubTag s2 s3
    where g: "GetOpenEulerTag example_env ?s = (Inr OpenEulerTag, s1)"
      and h: "GetDockerHubTag example_env s1 = (Inr DockerHubTag, s2)"
      and i: "ImagePrepare example_env (MatchTag OpenEulerTag DockerHubTag) [''x86_64'', ''aarch64''] s2
              = (Inr (), s3)"
      and f: "snd (main example_env [''release''] ?s) = emit (Print usage) s3"
    by blast
  from g have 1: "OpenEulerTag = [''20.03-lts'', ''22.03-lts'']" "s1 = ?s1"
    by (simp_all add: example_tags)
  from h 1 have 2: "DockerHubTag = [''20.03-lts'']"
    by (simp add: example_tags)
  have a: "\<exists>s1 s2 s3.
         GetOpenEulerTag example_env ?s = (Inr [''20.03-lts'', ''22.03-lts''], s1)
         \<and> GetDockerHubTag example_env s1 = (Inr [''20.03-lts''], s2)
         \<and> ImagePrepare example_env [''22.03-lts''] [''x86_64'', ''aarch64''] s2 = (Inr (), s3)
         \<and> snd (main example_env [''release''] ?s) = emit (Print usage) s3"
    using g h i f 1 2 by (auto simp: example_tags)
  have o: "GetOpenEulerTag offline_env ?s = (Inr [''20.03-lts'', ''22.03-lts''], ?s1)
           \<and> GetDockerHubTag offline_env ?s1
               = (Inl (Panic ''connection refused''),
                  \<lparr>fs = fresh, wd = ''/work'',
                   trace = [HttpGet ''https://repo.openeuler.org/'',
                            HttpGet ''https://hub.docker.com/v2/repositories/openeuler2k8s/openeuler/tags'']\<rparr>)"
    by (simp add: tag_defs offline_env_def example_env_def)
  from pipeline_before_argument_check [of offline_env ?s "[''release'', ''dir'', ''name'']",
      THEN conjunct2, THEN conjunct1, rule_format, OF o]
  have b: "main offline_env [''release'', ''dir'', ''name''] ?s
       = (Inl (Panic ''connection refused''),
          \<lparr>fs = fresh, wd = ''/work'',
           trace = [HttpGet ''https://repo.openeuler.org/'',
                    HttpGet ''https://hub.docker.com/v2/repositories/openeuler2k8s/openeuler/tags'']\<rparr>)"
    by blast
  have m1: "fst (main example_env [''release''] ?s) = Inl (Exit 0)"
    using m by (metis fst_conv)
  from m1 a b show ?thesis by blast
qed

text \<open>
  C8 (as amended). When the pipeline has run to its end and the number of arguments is
  not two, \<open>main\<close> prints the message, a heading followed by one line for each of the
  two arguments, and exits with status 0; when the pipeline ends early, \<open>main\<close> ends
  the same way in the state the pipeline left, so no message about the arguments is
  printed, and the exit status is not 0.
\<close>

theorem usage_after_completed_pipeline:
  "(\<forall>s1. run E s = (Inr (), s1) \<and> length Args \<noteq> 3
       \<longrightarrow> main E Args s = (Inl (Exit 0), emit (Print usage) s1)
           \<and> exit_status (fst (main E Args s)) = 0)
   \<and> (\<forall>f s1. run E s = (Inl f, s1)
       \<longrightarrow> main E Args s = (Inl f, s1)
           \<and> exit_status (fst (main E Args s)) \<noteq> 0)
   \<and> Split (CHR 0x0A) usage
       = [''bad num of arguments:'', CHR 0x09 # ''1. = dir with image content'',
          CHR 0x09 # ''2. = image name'']"
proof (intro conjI allI impI)
  fix s1 assume a: "run E s = (Inr (), s1) \<and> length Args \<noteq> 3"
  then show "main E Args s = (Inl (Exit 0), emit (Print usage) s1)"
    by (simp add: main_def)
  from a show "exit_status (fst (main E Args s)) = 0"
    by (simp add: main_def)
next
  fix f s1 assume a: "run E s = (Inl f, s1)"
  then show m: "main E Args s = (Inl f, s1)"
    by (simp add: main_def)
  have "f \<noteq> Exit code" for code
    using a run_no_Exit [of E s code s1] by auto
  then show "exit_status (fst (main E Args s)) \<noteq> 0"
    by (cases f) (simp_all add: m)
next
  show "Split (CHR 0x0A) usage
       = [''bad num of arguments:'', CHR 0x09 # ''1. = dir with image content'',
          CHR 0x09 # ''2. = image name'']"
    by (simp add: usage_def)
qed

theorem usage_after_completed_pipeline_witness:
  "main settled_env [''release'', ''dir''] \<lparr>fs = fresh, wd = ''/work'', trace = []\<rparr>
     = (Inl (Exit 0),
        \<lparr>fs = fresh, wd = ''/work'',
         trace = [HttpGet ''https://repo.openeuler.org/'',
                  HttpGet ''https://hub.docker.com/v2/repositories/openeuler2k8s/openeuler/tags'',
                  Print usage]\<rparr>)
   \<and> main offline_env [''release'', ''dir''] \<lparr>fs = fresh, wd = ''/work'', trace = []\<rparr>
     = (Inl (Panic ''connection refused''),
        \<lparr>fs = fresh, wd = ''/work'',
         trace = [HttpGet ''https://repo.openeuler.org/'',
                  HttpGet ''https://hub.docker.com/v2/repositories/openeuler2k8s/openeuler/tags'']\<rparr>)"
proof -
  let ?s = "\<lparr>fs = fresh, wd = ''/work'', trace = []\<rparr>"
  have n: "length [''release'', ''dir''] \<noteq> 3" by simp
  from usage_after_completed_pipeline [of settled_env ?s "[''release'', ''dir'']", THEN conjunct1,
      rule_format, OF conjI, OF settled_run n]
  have 1: "main settled_env [''release'', ''dir''] ?s
     = (Inl (Exit 0),
        emit (Print usage) \<lparr>fs = fresh, wd = ''/work'',
         trace = [HttpGet ''https://repo.openeuler.org/'',
                  HttpGet ''https://hub.docker.com/v2/repositories/openeuler2k8s/openeuler/tags'']\<rparr>)"
    by blast
  from usage_after_completed_pipeline [of offline_env ?s "[''release'', ''dir'']", THEN conjunct2,
      THEN conjunct1, rule_format, OF offline_run]
  have 2: "main offline_env [''release'', ''dir''] ?s
     = (Inl (Panic ''connection refused''),
        \<lparr>fs = fresh, wd = ''/work'',
         trace = [HttpGet ''https://repo.openeuler.org/'',
                  HttpGet ''https://hub.docker.com/v2/repositories/openeuler2k8s/openeuler/tags'']\<rparr>)"
    by blast
  from 1 2 show ?thesis by (simp add: emit_def)
qed

text \<open>
  The claim as first stated fails: with one argument too few and the registry out of
  reach, the run ends in the panic of \<open>GetDockerHubTag\<close>, with exit status 2 and no
  message about the arguments.
\<close>

theorem usage_counterexample:
  "main offline_env [''release''] \<lparr>fs = fresh, wd = ''/work'', trace = []\<rparr>
     = (Inl (Panic ''connection refused''),
        \<lparr>fs = fresh, wd = ''/work'',
         trace = [HttpGet ''https://repo.openeuler.org/'',
                  HttpGet ''https://hub.docker.com/v2/repositories/openeuler2k8s/openeuler/tags'']\<rparr>)
   \<and> exit_status (fst (main offline_env [''release'']
                          \<lparr>fs = fresh, wd = ''/work'', trace = []\<rparr>)) = 2"
  by (simp add: main_def offline_run)

section \<open>Properties of the target directory path\<close>

lemma Split_nonempty: "Split c xs \<noteq> []"
  by (induction xs) (auto split: list.splits)

lemma Split_append: "Split c (xs @ c # ys) = Split c xs @ Split c ys"
  by (induction xs) (auto split: list.splits simp: Split_nonempty)

lemma Split_no_sep: "c \<notin> set n \<Longrightarrow> Split c n = [n]"
  by (induction n) auto

lemma Split_elems: "e \<in> set (Split c xs) \<Longrightarrow> c \<notin> set e"
  by (induction xs arbitrary: e) (auto split: list.splits if_splits)

lemma Split_Join:
  "xs \<noteq> [] \<Longrightarrow> \<forall>x\<in>set xs. c \<notin> set x \<Longrightarrow> Split c (Join xs [c]) = xs"
proof (induction xs "[c]" rule: Join.induct)
  case 1
  then show ?case by simp
next
  case (2 x)
  then show ?case by (simp add: Split_no_sep)
next
  case (3 x y ys)
  then show ?case by (simp add: Split_append Split_no_sep)
qed

lemma Clean_elems_append:
  "Clean_elems r (es @ es') out = Clean_elems r es' (Clean_elems r es out)"
  by (induction es arbitrary: out) auto

lemma Clean_elems_good:
  "\<forall>e\<in>set es. CHR ''/'' \<notin> set e \<Longrightarrow> \<forall>e\<in>set out. e \<noteq> [] \<and> CHR ''/'' \<notin> set e
   \<Longrightarrow> \<forall>e\<in>set (Clean_elems r es out). e \<noteq> [] \<and> CHR ''/'' \<notin> set e"
proof (induction es arbitrary: out)
  case Nil
  then show ?case by simp
next
  case (Cons e es)
  have es: "\<forall>e\<in>set es. CHR ''/'' \<notin> set e" and e: "CHR ''/'' \<notin> set e"
    using Cons.prems(1) by simp_all
  have b: "\<forall>x\<in>set (butlast out). x \<noteq> [] \<and> CHR ''/'' \<notin> set x"
    using Cons.prems(2) by (meson in_set_butlastD)
  have d: "\<forall>x\<in>set (out @ [''..'']). x \<noteq> [] \<and> CHR ''/'' \<notin> set x"
    using Cons.prems(2) by simp
  have a: "e \<noteq> [] \<Longrightarrow> \<forall>x\<in>set (out @ [e]). x \<noteq> [] \<and> CHR ''/'' \<notin> set x"
    using Cons.prems(2) e by simp
  show ?case
    using Cons.IH [OF es Cons.prems(2)] Cons.IH [OF es b] Cons.IH [OF es d] Cons.IH [OF es a]
    by (simp only: Clean_elems.simps split: if_split) blast
qed

lemma path_elems_good: "\<forall>e\<in>set (path_elems p). e \<noteq> [] \<and> CHR ''/'' \<notin> set e"
  unfolding path_elems_def by (rule Clean_elems_good) (auto dest: Split_elems)

lemma Clean_elems_simple:
  "simple_name v \<Longrightarrow> simple_name a \<Longrightarrow>
   Clean_elems r [''openEuler'', v, a] out = out @ [''openEuler'', v, a]"
  by (simp add: simple_name_def)

lemma ImagePrepare_dir_render:
  assumes "simple_name v" "simple_name a"
  shows "ImagePrepare_dir pwd v a =
           Clean_render (pwd \<noteq> [] \<and> hd pwd = CHR ''/'') (path_elems pwd @ [''openEuler'', v, a])"
proof (cases "pwd = []")
  case True
  have "Split (CHR ''/'') (''openEuler'' @ CHR ''/'' # v @ CHR ''/'' # a) = [''openEuler'', v, a]"
    using assms by (simp only: Split_append) (simp add: Split_no_sep simple_name_def)
  then show ?thesis using True assms
    by (simp add: ImagePrepare_dir_def filepath_Join_def filepath_Clean_def path_elems_def simple_name_def)
next
  case False
  have s: "Split (CHR ''/'') (pwd @ CHR ''/'' # ''openEuler'' @ CHR ''/'' # v @ CHR ''/'' # a)
        = Split (CHR ''/'') pwd @ [''openEuler'', v, a]"
    using assms by (simp only: Split_append) (simp add: Split_no_sep simple_name_def)
  have "ImagePrepare_dir pwd v a = filepath_Clean (pwd @ CHR ''/'' # ''openEuler'' @ CHR ''/'' # v @ CHR ''/'' # a)"
    using False by (simp add: ImagePrepare_dir_def filepath_Join_def)
  also have "\<dots> = Clean_render (hd pwd = CHR ''/'')
      (Clean_elems (hd pwd = CHR ''/'') (Split (CHR ''/'') pwd @ [''openEuler'', v, a]) [])"
    using False unfolding filepath_Clean_def Let_def s [symmetric] by simp
  finally show ?thesis using False assms
    by (simp add: Clean_elems_append Clean_elems_simple path_elems_def del: Clean_elems.simps)
qed

lemma Split_render:
  assumes "xs \<noteq> []" "\<forall>x\<in>set xs. x \<noteq> [] \<and> CHR ''/'' \<notin> set x"
  shows "Split (CHR ''/'') (Clean_render r xs) = (if r then [[]] else []) @ xs"
proof -
  have j: "Split (CHR ''/'') (Join xs ''/'') = xs"
    using assms by (intro Split_Join) auto
  show ?thesis using assms(1) j by (simp add: Clean_render_def)
qed

lemma Clean_render_inj:
  assumes "\<forall>x\<in>set xs. x \<noteq> [] \<and> CHR ''/'' \<notin> set x" "\<forall>x\<in>set ys. x \<noteq> [] \<and> CHR ''/'' \<notin> set x"
    and "xs \<noteq> []" "ys \<noteq> []"
    and "Clean_render r xs = Clean_render r' ys"
  shows "r = r' \<and> xs = ys"
proof -
  have "(if r then [[]] else []) @ xs = (if r' then [[]] else []) @ ys"
    using Split_render [OF assms(3,1), of r] Split_render [OF assms(4,2), of r'] assms(5) by simp
  then show ?thesis using assms(1-4)
    by (cases xs; cases ys) (auto split: if_splits)
qed

lemma filepath_Clean_elems:
  "filepath_Clean p = Clean_render (p \<noteq> [] \<and> hd p = CHR ''/'') (path_elems p)"
  by (simp add: filepath_Clean_def path_elems_def Clean_render_def)

text \<open>
  C6 (as amended). The target directory is a function of the working directory, the
  version and the architecture, so equal inputs give equal paths; and when the working
  directories are cleaned paths and the versions and architectures are simple names, two
  triples give the same path only when they are the same triple.
\<close>

theorem target_dir_injective:
  assumes "simple_name v" "simple_name a" "simple_name v'" "simple_name a'"
    and "filepath_Clean pwd = pwd" "filepath_Clean pwd' = pwd'"
  shows "ImagePrepare_dir pwd v a = ImagePrepare_dir pwd' v' a' \<longleftrightarrow> (pwd, v, a) = (pwd', v', a')"
proof
  assume eq: "ImagePrepare_dir pwd v a = ImagePrepare_dir pwd' v' a'"
  let ?r = "pwd \<noteq> [] \<and> hd pwd = CHR ''/''" and ?r' = "pwd' \<noteq> [] \<and> hd pwd' = CHR ''/''"
  have g: "\<forall>x\<in>set (path_elems pwd @ [''openEuler'', v, a]). x \<noteq> [] \<and> CHR ''/'' \<notin> set x"
    using path_elems_good [of pwd] assms(1,2) by (auto simp: simple_name_def)
  have g': "\<forall>x\<in>set (path_elems pwd' @ [''openEuler'', v', a']). x \<noteq> [] \<and> CHR ''/'' \<notin> set x"
    using path_elems_good [of pwd'] assms(3,4) by (auto simp: simple_name_def)
  have "Clean_render ?r (path_elems pwd @ [''openEuler'', v, a])
      = Clean_render ?r' (path_elems pwd' @ [''openEuler'', v', a'])"
    using eq assms(1-4) by (simp only: ImagePrepare_dir_render)
  from Clean_render_inj [OF g g' _ _ this]
  have "?r = ?r'" and "path_elems pwd @ [''openEuler'', v, a] = path_elems pwd' @ [''openEuler'', v', a']"
    by simp_all
  then have "?r = ?r'" "path_elems pwd = path_elems pwd'" "v = v'" "a = a'" by simp_all
  moreover from this have "filepath_Clean pwd = filepath_Clean pwd'"
    by (simp only: filepath_Clean_elems)
  ultimately show "(pwd, v, a) = (pwd', v', a')" using assms(5,6) by simp
next
  assume "(pwd, v, a) = (pwd', v', a')"
  then show "ImagePrepare_dir pwd v a = ImagePrepare_dir pwd' v' a'" by simp
qed

theorem target_dir_injective_witness:
  "ImagePrepare_dir ''/work'' ''22.03'' ''x86_64'' \<noteq> ImagePrepare_dir ''/work'' ''22.03'' ''aarch64''
   \<and> ImagePrepare_dir ''/work'' ''22.03'' ''x86_64'' \<noteq> ImagePrepare_dir ''/srv'' ''22.03'' ''x86_64''"
proof -
  have n: "simple_name ''22.03''" "simple_name ''x86_64''" "simple_name ''aarch64''"
    by (simp_all add: simple_name_def)
  have c: "filepath_Clean ''/work'' = ''/work''" "filepath_Clean ''/srv'' = ''/srv''"
    by (simp_all add: filepath_Clean_def Clean_render_def)
  from target_dir_injective [OF n(1,2) n(1,3) c(1) c(1)] target_dir_injective [OF n(1,2) n(1,2) c(1) c(2)]
  show ?thesis by simp
qed

text \<open>
  The claim as first stated fails: over all strings the path is not injective, since
  \<open>filepath.Join\<close> drops an empty element and reads a separator inside an element as
  one between elements.
\<close>

theorem target_dir_counterexample:
  "ImagePrepare_dir ''/work'' ''22.03'' ''x86_64'' = ImagePrepare_dir ''/work'' ''22.03/x86_64'' []
   \<and> (''/work'', ''22.03'', ''x86_64'') \<noteq> (''/work'', ''22.03/x86_64'', [])"
  by (simp add: ImagePrepare_dir_def filepath_Join_def filepath_Clean_def Clean_render_def)

end
